theory Spec2Isabelle
  imports Main "HOL-Library.Word"
begin

section \<open>Time\<close>

text \<open>
  The store keeps instants as ISO-8601 strings produced by \<^verbatim>\<open>new Date().toISOString()\<close>.
  An instant is modelled by the number of milliseconds since the epoch that the string
  denotes. The calendar date \<^verbatim>\<open>toISOString().split('T')[0]\<close> is the UTC date of the
  instant; it is modelled by the UTC day number, which determines the ten characters
  \<^verbatim>\<open>YYYY-MM-DD\<close> and is determined by them.
\<close>

type_synonym timestamp = int
type_synonym date = int

definition isoDate :: "timestamp \<Rightarrow> date" where
  "isoDate t = t div 86400000"

section \<open>Configuration (config.js)\<close>

definition CONFIG_app_version :: string where
  "CONFIG_app_version = ''2.1.0''"

definition CONFIG_features_checkInHistory :: bool where
  "CONFIG_features_checkInHistory = True"

definition CONFIG_limits_maxHistoryEntries :: nat where
  "CONFIG_limits_maxHistoryEntries = 100"

definition CONFIG_reset_autoReset :: bool where
  "CONFIG_reset_autoReset = True"

section \<open>The persisted document\<close>

record history_entry =
  timestamp :: timestamp
  device :: string

record credential =
  id_cred :: string
  label :: string
  email :: string
  password :: string
  notes_cred :: string
  checkedInOn :: "timestamp option"
  checkInHistory :: "history_entry list option"

record site =
  id_site :: string
  name :: string
  url :: string
  category :: "string option"
  tags :: "string list option"
  notes_site :: string
  credentials :: "credential list"
  createdAt :: timestamp
  updatedAt :: timestamp

record category_rec =
  id_cat :: string
  name_cat :: string
  color_cat :: string
  icon_cat :: string
  order_cat :: nat

record settings_rec =
  theme :: string
  viewMode :: string
  autoReset :: bool
  resetTime :: string

record analytics_rec =
  totalCheckIns :: int
  currentStreak :: int
  longestStreak :: int
  averageDaily :: int
  sitesAdded :: int
  sitesArchived :: int
  lastCheckIn :: "timestamp option"

record state =
  version :: string
  lastReset :: date
  settings :: settings_rec
  categories :: "category_rec list"
  sites :: "site list"
  analytics :: analytics_rec

text \<open>
  The content of the storage key: \<open>None\<close> when the key is absent or does not parse
  (\<^verbatim>\<open>getState\<close> returns null), otherwise the parsed document. \<^verbatim>\<open>setState\<close> replaces it;
  the operations ignore its result, and a write that the browser refuses is not modelled.
\<close>

type_synonym storage = "state option"

section \<open>StorageService (core/storage.js)\<close>

text \<open>
  \<^verbatim>\<open>find\<close> returns the first element that satisfies the predicate, and the code then
  assigns to fields of the object it got. \<open>update_first\<close> is that assignment seen from the
  enclosing array: the first element that satisfies the predicate is replaced.
\<close>

fun update_first :: "('a \<Rightarrow> bool) \<Rightarrow> ('a \<Rightarrow> 'a) \<Rightarrow> 'a list \<Rightarrow> 'a list" where
  "update_first P f [] = []"
| "update_first P f (x # xs) = (if P x then f x # xs else x # update_first P f xs)"

text \<open>
  \<^verbatim>\<open>updateStreak(state)\<close>, lines 289-310. \<open>t_today\<close> is the clock read of line 290 and
  \<open>t_datenow\<close> the \<^verbatim>\<open>Date.now()\<close> of line 299.
\<close>

definition updateStreak :: "timestamp \<Rightarrow> timestamp \<Rightarrow> state \<Rightarrow> state" where
  "updateStreak t_today t_datenow st =
     (let today = isoDate t_today;
          a = analytics st
      in case lastCheckIn a of
           None \<Rightarrow> st\<lparr>analytics := a\<lparr>currentStreak := 1\<rparr>\<rparr>
         | Some lc \<Rightarrow>
             (let lastDate = isoDate lc;
                  yesterday = isoDate (t_datenow - 86400000);
                  a1 = (if lastDate = yesterday then a\<lparr>currentStreak := currentStreak a + 1\<rparr>
                        else if lastDate \<noteq> today then a\<lparr>currentStreak := 1\<rparr>
                        else a);
                  a2 = (if currentStreak a1 > longestStreak a1
                        then a1\<lparr>longestStreak := currentStreak a1\<rparr> else a1)
              in st\<lparr>analytics := a2\<rparr>))"

text \<open>
  The history update of lines 210-221 on the credential that was found: the new entry is
  put in front (\<^verbatim>\<open>unshift\<close>) and the array is cut to its first
  \<^verbatim>\<open>CONFIG.limits.maxHistoryEntries\<close> entries when it is longer.
\<close>

definition addHistory :: "timestamp \<Rightarrow> string \<Rightarrow> credential \<Rightarrow> credential" where
  "addHistory now dev c =
     (if CONFIG_features_checkInHistory then
        (let h0 = (case checkInHistory c of None \<Rightarrow> [] | Some h \<Rightarrow> h);
             h1 = \<lparr>timestamp = now, device = dev\<rparr> # h0;
             h2 = (if length h1 > CONFIG_limits_maxHistoryEntries
                   then take CONFIG_limits_maxHistoryEntries h1 else h1)
         in c\<lparr>checkInHistory := Some h2\<rparr>)
      else c)"

text \<open>
  \<^verbatim>\<open>checkInCredential(siteId, credentialId)\<close>, lines 196-232. \<open>now\<close> is the clock read of
  line 206, \<open>dev\<close> the value of \<^verbatim>\<open>getDeviceInfo()\<close>; the two further clock reads are
  those of \<^verbatim>\<open>updateStreak\<close>. The result is the returned boolean and the storage content
  afterwards.
\<close>

definition checkInCredential ::
  "timestamp \<Rightarrow> timestamp \<Rightarrow> timestamp \<Rightarrow> string \<Rightarrow> string \<Rightarrow> string \<Rightarrow> storage \<Rightarrow> bool \<times> storage" where
  "checkInCredential now t_today t_datenow dev siteId credentialId store =
     (case store of
        None \<Rightarrow> (False, store)
      | Some st \<Rightarrow>
          (case find (\<lambda>s. id_site s = siteId) (sites st) of
             None \<Rightarrow> (False, store)
           | Some site \<Rightarrow>
               (case find (\<lambda>c. id_cred c = credentialId) (credentials site) of
                  None \<Rightarrow> (False, store)
                | Some cred \<Rightarrow>
                    (let cred' = addHistory now dev (cred\<lparr>checkedInOn := Some now\<rparr>);
                         st1 = st\<lparr>sites :=
                                 update_first (\<lambda>s. id_site s = siteId)
                                   (\<lambda>s. s\<lparr>credentials :=
                                           update_first (\<lambda>c. id_cred c = credentialId)
                                             (\<lambda>_. cred') (credentials s)\<rparr>)
                                   (sites st)\<rparr>;
                         a = analytics st1;
                         st2 = st1\<lparr>analytics :=
                                 a\<lparr>totalCheckIns := totalCheckIns a + 1,
                                   lastCheckIn := Some now\<rparr>\<rparr>;
                         st3 = updateStreak t_today t_datenow st2
                     in (True, Some st3)))))"

text \<open>\<^verbatim>\<open>resetCredential(siteId, credentialId)\<close>, lines 237-251.\<close>

definition resetCredential :: "string \<Rightarrow> string \<Rightarrow> storage \<Rightarrow> bool \<times> storage" where
  "resetCredential siteId credentialId store =
     (case store of
        None \<Rightarrow> (False, store)
      | Some st \<Rightarrow>
          (case find (\<lambda>s. id_site s = siteId) (sites st) of
             None \<Rightarrow> (False, store)
           | Some site \<Rightarrow>
               (case find (\<lambda>c. id_cred c = credentialId) (credentials site) of
                  None \<Rightarrow> (False, store)
                | Some cred \<Rightarrow>
                    (True, Some (st\<lparr>sites :=
                       update_first (\<lambda>s. id_site s = siteId)
                         (\<lambda>s. s\<lparr>credentials :=
                                 update_first (\<lambda>c. id_cred c = credentialId)
                                   (\<lambda>c. c\<lparr>checkedInOn := None\<rparr>) (credentials s)\<rparr>)
                         (sites st)\<rparr>)))))"

text \<open>\<^verbatim>\<open>resetAllCredentials()\<close>, lines 256-271; \<open>t\<close> is the clock read of line 266.\<close>

definition resetAllCredentials :: "timestamp \<Rightarrow> storage \<Rightarrow> bool \<times> storage" where
  "resetAllCredentials t store =
     (case store of
        None \<Rightarrow> (False, store)
      | Some st \<Rightarrow>
          (True, Some (st\<lparr>sites :=
                           map (\<lambda>s. s\<lparr>credentials :=
                                        map (\<lambda>c. c\<lparr>checkedInOn := None\<rparr>) (credentials s)\<rparr>)
                               (sites st),
                         lastReset := isoDate t\<rparr>)))"

text \<open>
  \<^verbatim>\<open>checkDailyReset()\<close>, lines 276-284; \<open>t\<close> is the clock read of line 280 and \<open>t_reset\<close>
  the one \<^verbatim>\<open>resetAllCredentials\<close> makes.
\<close>

definition checkDailyReset :: "timestamp \<Rightarrow> timestamp \<Rightarrow> storage \<Rightarrow> storage" where
  "checkDailyReset t t_reset store =
     (case store of
        None \<Rightarrow> store
      | Some st \<Rightarrow>
          if \<not> autoReset (settings st) then store
          else (let today = isoDate t
                in if lastReset st \<noteq> today then snd (resetAllCredentials t_reset store)
                   else store))"


text \<open>
  \<^verbatim>\<open>initializeDefaultState()\<close>, lines 36-68. \<open>t\<close> is the clock read of line 39 and
  \<open>gen i\<close> the identifier \<^verbatim>\<open>generateId()\<close> returns for the category of index \<open>i\<close>
  (identifiers are drawn from \<^verbatim>\<open>Math.random\<close>). The emoji of the default categories are
  written as their UTF-8 bytes.
\<close>

definition CONFIG_defaultCategories :: "(string \<times> string \<times> string) list" where
  "CONFIG_defaultCategories =
     [(''Finance'', ''#10b981'', [CHR 0xF0, CHR 0x9F, CHR 0x92, CHR 0xB0]),
      (''Work'', ''#3b82f6'', [CHR 0xF0, CHR 0x9F, CHR 0x92, CHR 0xBC]),
      (''Personal'', ''#8b5cf6'', [CHR 0xF0, CHR 0x9F, CHR 0x91, CHR 0xA4]),
      (''Social Media'', ''#ec4899'', [CHR 0xF0, CHR 0x9F, CHR 0x93, CHR 0xB1]),
      (''Entertainment'', ''#f59e0b'', [CHR 0xF0, CHR 0x9F, CHR 0x8E, CHR 0xAC]),
      (''Utilities'', ''#6366f1'', [CHR 0xE2, CHR 0x9A, CHR 0xA1])]"

definition initializeDefaultState :: "timestamp \<Rightarrow> (nat \<Rightarrow> string) \<Rightarrow> state \<times> storage" where
  "initializeDefaultState t gen =
     (let defaultState =
        \<lparr>version = CONFIG_app_version,
         lastReset = isoDate t,
         settings = \<lparr>theme = ''auto'', viewMode = ''grid'',
                     autoReset = CONFIG_reset_autoReset, resetTime = ''00:00''\<rparr>,
         categories =
           map (\<lambda>(index, (n, c, i)).
                  \<lparr>id_cat = gen index, name_cat = n, color_cat = c, icon_cat = i,
                   order_cat = index\<rparr>)
               (enumerate 0 CONFIG_defaultCategories),
         sites = [],
         analytics = \<lparr>totalCheckIns = 0, currentStreak = 0, longestStreak = 0,
                      averageDaily = 0, sitesAdded = 0, sitesArchived = 0,
                      lastCheckIn = None\<rparr>\<rparr>
      in (defaultState, Some defaultState))"

text \<open>
  \<^verbatim>\<open>init()\<close>, lines 22-31: bootstrap when nothing is stored, then the daily-reset check.
\<close>

definition init :: "timestamp \<Rightarrow> (nat \<Rightarrow> string) \<Rightarrow> timestamp \<Rightarrow> timestamp \<Rightarrow> storage \<Rightarrow> storage" where
  "init t gen t_check t_reset store =
     (let store1 = (case store of None \<Rightarrow> snd (initializeDefaultState t gen)
                                | Some _ \<Rightarrow> store)
      in checkDailyReset t_check t_reset store1)"

text \<open>
  \<^verbatim>\<open>addSite(siteData)\<close>, lines 131-149. The new object lists the generated \<^verbatim>\<open>id\<close>,
  \<^verbatim>\<open>createdAt\<close> and \<^verbatim>\<open>updatedAt\<close> first and spreads \<^verbatim>\<open>siteData\<close> after them, so a
  key that \<^verbatim>\<open>siteData\<close> has replaces the generated value. \<open>site_data\<close> is the caller's
  object: the three keys may be absent, the other fields of a site are given.
  \<open>gen_id\<close> is the value of \<^verbatim>\<open>generateId()\<close>, \<open>t_created\<close> and \<open>t_updated\<close> are the
  clock reads of lines 137 and 138.
\<close>

record site_data =
  sd_id :: "string option"
  sd_createdAt :: "timestamp option"
  sd_updatedAt :: "timestamp option"
  sd_name :: string
  sd_url :: string
  sd_category :: "string option"
  sd_tags :: "string list option"
  sd_notes :: string
  sd_credentials :: "credential list"

definition addSite ::
  "string \<Rightarrow> timestamp \<Rightarrow> timestamp \<Rightarrow> site_data \<Rightarrow> storage \<Rightarrow> site option \<times> storage" where
  "addSite gen_id t_created t_updated siteData store =
     (case store of
        None \<Rightarrow> (None, store)
      | Some st \<Rightarrow>
          (let newSite =
                 \<lparr>id_site = (case sd_id siteData of Some i \<Rightarrow> i | None \<Rightarrow> gen_id),
                  name = sd_name siteData,
                  url = sd_url siteData,
                  category = sd_category siteData,
                  tags = sd_tags siteData,
                  notes_site = sd_notes siteData,
                  credentials = sd_credentials siteData,
                  createdAt = (case sd_createdAt siteData of Some c \<Rightarrow> c | None \<Rightarrow> t_created),
                  updatedAt = (case sd_updatedAt siteData of Some u \<Rightarrow> u | None \<Rightarrow> t_updated)\<rparr>;
               st1 = st\<lparr>sites := sites st @ [newSite]\<rparr>;
               a = analytics st1;
               st2 = st1\<lparr>analytics := a\<lparr>sitesAdded := sitesAdded a + 1\<rparr>\<rparr>
           in (Some newSite, Some st2)))"

text \<open>
  \<^verbatim>\<open>updateSite(id, updates)\<close>, lines 154-171: the site at the first index whose id matches
  becomes \<^verbatim>\<open>{...site, ...updates, updatedAt: now}\<close>. In \<open>site_updates\<close> a field is
  \<open>Some v\<close> when \<^verbatim>\<open>updates\<close> has the key.
\<close>

record site_updates =
  up_id :: "string option"
  up_name :: "string option"
  up_url :: "string option"
  up_category :: "string option option"
  up_tags :: "string list option option"
  up_notes :: "string option"
  up_credentials :: "credential list option"
  up_createdAt :: "timestamp option"

definition spread_updates :: "site \<Rightarrow> site_updates \<Rightarrow> timestamp \<Rightarrow> site" where
  "spread_updates s u t =
     \<lparr>id_site = (case up_id u of Some v \<Rightarrow> v | None \<Rightarrow> id_site s),
      name = (case up_name u of Some v \<Rightarrow> v | None \<Rightarrow> name s),
      url = (case up_url u of Some v \<Rightarrow> v | None \<Rightarrow> url s),
      category = (case up_category u of Some v \<Rightarrow> v | None \<Rightarrow> category s),
      tags = (case up_tags u of Some v \<Rightarrow> v | None \<Rightarrow> tags s),
      notes_site = (case up_notes u of Some v \<Rightarrow> v | None \<Rightarrow> notes_site s),
      credentials = (case up_credentials u of Some v \<Rightarrow> v | None \<Rightarrow> credentials s),
      createdAt = (case up_createdAt u of Some v \<Rightarrow> v | None \<Rightarrow> createdAt s),
      updatedAt = t\<rparr>"

definition updateSite :: "timestamp \<Rightarrow> string \<Rightarrow> site_updates \<Rightarrow> storage \<Rightarrow> bool \<times> storage" where
  "updateSite t ident updates store =
     (case store of
        None \<Rightarrow> (False, store)
      | Some st \<Rightarrow>
          (case find (\<lambda>s. id_site s = ident) (sites st) of
             None \<Rightarrow> (False, store)
           | Some _ \<Rightarrow>
               (True, Some (st\<lparr>sites :=
                  update_first (\<lambda>s. id_site s = ident) (\<lambda>s. spread_updates s updates t)
                    (sites st)\<rparr>))))"

text \<open>
  \<^verbatim>\<open>deleteSite(id)\<close>, lines 176-191: \<^verbatim>\<open>splice\<close> removes the site at the first index whose
  id matches.
\<close>

fun remove_first :: "('a \<Rightarrow> bool) \<Rightarrow> 'a list \<Rightarrow> 'a list" where
  "remove_first P [] = []"
| "remove_first P (x # xs) = (if P x then xs else x # remove_first P xs)"

definition deleteSite :: "string \<Rightarrow> storage \<Rightarrow> bool \<times> storage" where
  "deleteSite ident store =
     (case store of
        None \<Rightarrow> (False, store)
      | Some st \<Rightarrow>
          (case find (\<lambda>s. id_site s = ident) (sites st) of
             None \<Rightarrow> (False, store)
           | Some _ \<Rightarrow>
               (let st1 = st\<lparr>sites := remove_first (\<lambda>s. id_site s = ident) (sites st)\<rparr>;
                    a = analytics st1
                in (True, Some (st1\<lparr>analytics := a\<lparr>sitesArchived := sitesArchived a + 1\<rparr>\<rparr>)))))"

text \<open>
  \<^verbatim>\<open>addCategory(categoryData)\<close>, lines 323-337: \<^verbatim>\<open>{id, order, ...categoryData}\<close>.
\<close>

record category_data =
  cd_id :: "string option"
  cd_order :: "nat option"
  cd_name :: string
  cd_color :: string
  cd_icon :: string

definition addCategory :: "string \<Rightarrow> category_data \<Rightarrow> storage \<Rightarrow> category_rec option \<times> storage" where
  "addCategory gen_id categoryData store =
     (case store of
        None \<Rightarrow> (None, store)
      | Some st \<Rightarrow>
          (let newCategory =
                 \<lparr>id_cat = (case cd_id categoryData of Some i \<Rightarrow> i | None \<Rightarrow> gen_id),
                  name_cat = cd_name categoryData,
                  color_cat = cd_color categoryData,
                  icon_cat = cd_icon categoryData,
                  order_cat = (case cd_order categoryData of Some n \<Rightarrow> n
                               | None \<Rightarrow> length (categories st))\<rparr>
           in (Some newCategory, Some (st\<lparr>categories := categories st @ [newCategory]\<rparr>))))"

text \<open>
  \<^verbatim>\<open>importData(dataString, password)\<close>, lines 381-411. \<open>parsed\<close> is what lines 383-388
  produce from the string (\<^verbatim>\<open>JSON.parse\<close> and, for an envelope with a password, the
  decryption): \<open>None\<close> when one of them throws. Of the parsed object the code reads
  \<^verbatim>\<open>sites\<close> (\<open>None\<close>: missing or not an array) and \<^verbatim>\<open>categories\<close> (\<open>None\<close>: falsy).
  Every exception, also the one of reading \<^verbatim>\<open>state.sites\<close> when nothing is stored, is
  caught and gives \<^verbatim>\<open>false\<close>.
\<close>

record import_data =
  imp_sites :: "site list option"
  imp_categories :: "category_rec list option"

definition importData :: "import_data option \<Rightarrow> storage \<Rightarrow> bool \<times> storage" where
  "importData parsed store =
     (case parsed of
        None \<Rightarrow> (False, store)
      | Some d \<Rightarrow>
          (case imp_sites d of
             None \<Rightarrow> (False, store)
           | Some new_sites \<Rightarrow>
               (case store of
                  None \<Rightarrow> (False, store)
                | Some st \<Rightarrow>
                    (True, Some (st\<lparr>sites := sites st @ new_sites,
                                     categories := (case imp_categories d of
                                                      Some cs \<Rightarrow> cs
                                                    | None \<Rightarrow> categories st)\<rparr>)))))"

text \<open>\<^verbatim>\<open>clearAllData()\<close>, lines 438-443: the storage key is removed.\<close>

definition clearAllData :: "storage \<Rightarrow> storage" where
  "clearAllData store = None"


section \<open>CryptoService (core/crypto.js)\<close>

text \<open>
  The service calls the browser for everything cryptographic. What the browser provides
  is a parameter of the model: \<^verbatim>\<open>JSON.stringify\<close> and \<^verbatim>\<open>JSON.parse\<close> on the payload
  type \<open>'d\<close> (\<open>None\<close>: a \<^verbatim>\<open>SyntaxError\<close>), \<^verbatim>\<open>TextEncoder\<close> and \<^verbatim>\<open>TextDecoder\<close>,
  \<^verbatim>\<open>btoa\<close> and \<^verbatim>\<open>atob\<close> (\<open>None\<close>: the string is not base64), PBKDF2 with SHA-256
  (password bytes, salt, iterations, key length in bits) and AES-GCM (key, iv, data;
  decryption gives \<open>None\<close> when authentication fails).
\<close>

type_synonym byte = "8 word"

record 'd platform =
  json_stringify :: "'d \<Rightarrow> string"
  json_parse :: "string \<Rightarrow> 'd option"
  text_encode :: "string \<Rightarrow> byte list"
  text_decode :: "byte list \<Rightarrow> string"
  btoa :: "string \<Rightarrow> string"
  atob :: "string \<Rightarrow> string option"
  pbkdf2_sha256 :: "byte list \<Rightarrow> byte list \<Rightarrow> nat \<Rightarrow> nat \<Rightarrow> byte list"
  aes_gcm_encrypt :: "byte list \<Rightarrow> byte list \<Rightarrow> byte list \<Rightarrow> byte list"
  aes_gcm_decrypt :: "byte list \<Rightarrow> byte list \<Rightarrow> byte list \<Rightarrow> byte list option"

datatype crypto_error = EncryptionFailed | DecryptionFailed

record envelope =
  env_salt :: string
  env_iv :: string
  env_data :: string
  env_algorithm :: string
  env_iterations :: nat

definition crypto_algorithm :: string where
  "crypto_algorithm = ''AES-GCM''"

definition crypto_keyLength :: nat where
  "crypto_keyLength = 256"

definition crypto_iterations :: nat where
  "crypto_iterations = 100000"

text \<open>\<^verbatim>\<open>deriveKey(password, salt)\<close>, lines 503-529 of the listing.\<close>

definition deriveKey :: "'d platform \<Rightarrow> string \<Rightarrow> byte list \<Rightarrow> byte list" where
  "deriveKey P pw salt =
     pbkdf2_sha256 P (text_encode P pw) salt crypto_iterations crypto_keyLength"

text \<open>
  \<^verbatim>\<open>arrayBufferToBase64\<close> and \<^verbatim>\<open>base64ToArrayBuffer\<close>, lines 734-753: each byte becomes
  the character with that code and back (\<^verbatim>\<open>String.fromCharCode\<close>, \<^verbatim>\<open>charCodeAt\<close>).
\<close>

definition arrayBufferToBase64 :: "'d platform \<Rightarrow> byte list \<Rightarrow> string" where
  "arrayBufferToBase64 P buffer = btoa P (map (\<lambda>b. char_of (unat b)) buffer)"

definition base64ToArrayBuffer :: "'d platform \<Rightarrow> string \<Rightarrow> byte list option" where
  "base64ToArrayBuffer P base64 =
     (case atob P base64 of
        None \<Rightarrow> None
      | Some binary \<Rightarrow> Some (map (\<lambda>c. of_nat (of_char c)) binary))"

text \<open>
  \<^verbatim>\<open>encrypt(data, password)\<close>, lines 548-584. \<open>salt\<close> and \<open>iv\<close> are the values of
  \<^verbatim>\<open>generateSalt()\<close> and \<^verbatim>\<open>generateIV()\<close> (16 and 12 random bytes).
\<close>

definition encrypt :: "'d platform \<Rightarrow> byte list \<Rightarrow> byte list \<Rightarrow> 'd \<Rightarrow> string \<Rightarrow> envelope" where
  "encrypt P salt iv data pw =
     (let dataBuffer = text_encode P (json_stringify P data);
          key = deriveKey P pw salt;
          encryptedData = aes_gcm_encrypt P key iv dataBuffer
      in \<lparr>env_salt = arrayBufferToBase64 P salt,
          env_iv = arrayBufferToBase64 P iv,
          env_data = arrayBufferToBase64 P encryptedData,
          env_algorithm = crypto_algorithm,
          env_iterations = crypto_iterations\<rparr>)"

text \<open>
  \<^verbatim>\<open>decrypt(encryptedObject, password)\<close>, lines 589-617: every exception inside is
  rethrown as the one decryption error.
\<close>

definition decrypt :: "'d platform \<Rightarrow> envelope \<Rightarrow> string \<Rightarrow> crypto_error + 'd" where
  "decrypt P encryptedObject pw =
     (case base64ToArrayBuffer P (env_salt encryptedObject) of
        None \<Rightarrow> Inl DecryptionFailed
      | Some salt \<Rightarrow>
          (case base64ToArrayBuffer P (env_iv encryptedObject) of
             None \<Rightarrow> Inl DecryptionFailed
           | Some iv \<Rightarrow>
               (case base64ToArrayBuffer P (env_data encryptedObject) of
                  None \<Rightarrow> Inl DecryptionFailed
                | Some encryptedData \<Rightarrow>
                    (let key = deriveKey P pw salt
                     in case aes_gcm_decrypt P key iv encryptedData of
                          None \<Rightarrow> Inl DecryptionFailed
                        | Some decryptedData \<Rightarrow>
                            (let jsonString = text_decode P decryptedData
                             in case json_parse P jsonString of
                                  None \<Rightarrow> Inl DecryptionFailed
                                | Some v \<Rightarrow> Inr v)))))"

section \<open>Export (core/storage.js)\<close>

fun join :: "string \<Rightarrow> string list \<Rightarrow> string" where
  "join sep [] = []"
| "join sep [x] = x"
| "join sep (x # y # ys) = x @ sep @ join sep (y # ys)"

text \<open>
  The object \<^verbatim>\<open>exportData\<close> builds: the document with the configured version, and
  \<^verbatim>\<open>exportedAt\<close>.
\<close>

record export_data =
  ex_doc :: state
  exportedAt :: timestamp

text \<open>\<^verbatim>\<open>convertToCSV(data)\<close>, lines 416-433.\<close>

definition convertToCSV :: "export_data \<Rightarrow> string" where
  "convertToCSV data =
     (let rows = [[''Site Name'', ''URL'', ''Category'', ''Email'', ''Label'', ''Tags'']] @
            concat (map (\<lambda>s. map (\<lambda>cred.
                       [name s, url s,
                        (case category s of None \<Rightarrow> [] | Some c \<Rightarrow> c),
                        email cred, label cred,
                        join '';'' (case tags s of None \<Rightarrow> [] | Some ts \<Rightarrow> ts)])
                     (credentials s)) (sites (ex_doc data)))
      in join [CHR 0x0A]
           (map (\<lambda>row. join '','' (map (\<lambda>cell. [CHR 0x22] @ cell @ [CHR 0x22]) row)) rows))"

text \<open>
  What \<^verbatim>\<open>exportData\<close> returns: the pretty-printed \<^verbatim>\<open>JSON.stringify(x, null, 2)\<close> of an
  envelope (line 364) or of the export object (line 368), each represented by the value
  that is printed, or the CSV text (line 372).
\<close>

datatype export_output =
  JSON_of_envelope envelope
| JSON_of_data export_data
| CSV_text string

text \<open>
  \<^verbatim>\<open>exportData(format, includeHistory, encrypt, password)\<close>, lines 342-376. \<open>t\<close> is the
  clock read of line 348; \<open>salt\<close> and \<open>iv\<close> are the random bytes the encryption draws.
  \<open>buildExportData\<close> is the object of lines 346-360. The result is \<open>None\<close> where the code
  returns null.
\<close>

definition buildExportData :: "timestamp \<Rightarrow> bool \<Rightarrow> state \<Rightarrow> export_data" where
  "buildExportData t includeHistory st =
     (let data0 = \<lparr>ex_doc = st\<lparr>version := CONFIG_app_version\<rparr>, exportedAt = t\<rparr>
      in if \<not> includeHistory then
           data0\<lparr>ex_doc := (ex_doc data0)\<lparr>sites :=
             map (\<lambda>s. s\<lparr>credentials :=
                          map (\<lambda>cred. cred\<lparr>checkInHistory := Some []\<rparr>) (credentials s)\<rparr>)
                 (sites (ex_doc data0))\<rparr>\<rparr>
         else data0)"

definition exportData ::
  "export_data platform \<Rightarrow> byte list \<Rightarrow> byte list \<Rightarrow> timestamp \<Rightarrow>
   string \<Rightarrow> bool \<Rightarrow> bool \<Rightarrow> string option \<Rightarrow> storage \<Rightarrow> export_output option" where
  "exportData P salt iv t format includeHistory encrypt_flag pw store =
     (case store of
        None \<Rightarrow> None
      | Some st \<Rightarrow>
          (let data = buildExportData t includeHistory st
           in if encrypt_flag \<and> pw \<noteq> None \<and> pw \<noteq> Some []
              then Some (JSON_of_envelope (encrypt P salt iv data (the pw)))
              else if format = ''json'' then Some (JSON_of_data data)
              else if format = ''csv'' then Some (CSV_text (convertToCSV data))
              else None))"

section \<open>StateManager (core/state.js)\<close>

record filters =
  search :: string
  status :: string
  filter_category :: "string option"
  filter_tags :: "string list"

text \<open>
  \<^verbatim>\<open>toLowerCase\<close> on the letters A to Z; the characters of a \<open>string\<close> are bytes, and the
  bytes beyond ASCII are left as they are.
\<close>

definition toLowerCase :: "string \<Rightarrow> string" where
  "toLowerCase s =
     map (\<lambda>c. let n = (of_char c :: nat) in if 65 \<le> n \<and> n \<le> 90 then char_of (n + 32) else c) s"

text \<open>\<^verbatim>\<open>haystack.includes(needle)\<close>: the needle occurs as a contiguous part.\<close>

fun includes_str :: "'a list \<Rightarrow> 'a list \<Rightarrow> bool" where
  "includes_str [] needle = (needle = [])"
| "includes_str (x # xs) needle = (take (length needle) (x # xs) = needle \<or> includes_str xs needle)"

text \<open>
  \<^verbatim>\<open>isToday(dateString)\<close>, lines 1098-1102 of the listing; \<open>now\<close> is the clock read.
\<close>

definition isToday :: "timestamp \<Rightarrow> timestamp \<Rightarrow> bool" where
  "isToday now dateString = (isoDate now = isoDate dateString)"

text \<open>
  \<^verbatim>\<open>getFilteredSites()\<close>, lines 796-835 of the listing, on the cached document's sites.
  The clock reads of one call are taken at the one instant \<open>now\<close>.
\<close>

definition searchText :: "site \<Rightarrow> string" where
  "searchText s =
     toLowerCase (join '' ''
       ([name s, url s] @ (case tags s of None \<Rightarrow> [] | Some ts \<Rightarrow> ts) @
        map (\<lambda>c. email c @ '' '' @ label c) (credentials s)))"

definition hasCheckedIn :: "timestamp \<Rightarrow> site \<Rightarrow> bool" where
  "hasCheckedIn now s =
     list_ex (\<lambda>c. case checkedInOn c of None \<Rightarrow> False | Some t \<Rightarrow> isToday now t)
       (credentials s)"

definition getFilteredSites :: "timestamp \<Rightarrow> filters \<Rightarrow> site list \<Rightarrow> site list" where
  "getFilteredSites now f all_sites =
     (let sites1 = (if search f \<noteq> [] then
                      (let query = toLowerCase (search f)
                       in filter (\<lambda>s. includes_str (searchText s) query) all_sites)
                    else all_sites);
          sites2 = (if status f \<noteq> ''all'' then
                      filter (\<lambda>s. if status f = ''done'' then hasCheckedIn now s
                                   else \<not> hasCheckedIn now s) sites1
                    else sites1);
          sites3 = (if filter_category f \<noteq> None \<and> filter_category f \<noteq> Some [] then
                      filter (\<lambda>s. category s = filter_category f) sites2
                    else sites2);
          sites4 = (if length (filter_tags f) > 0 then
                      filter (\<lambda>s. list_ex (\<lambda>tag. case tags s of None \<Rightarrow> False
                                                   | Some ts \<Rightarrow> tag \<in> set ts)
                                     (filter_tags f)) sites3
                    else sites3)
      in sites4)"


section \<open>MigrationService (core/migrations.js)\<close>

text \<open>
  The migrator receives whatever \<^verbatim>\<open>JSON.parse\<close> produced, so its input is a JavaScript
  value and not a typed document. An object is the list of its own properties in
  property order (keys distinct); \<open>JUndefined\<close> is the value of a missing property.
  Numbers are integers: the code only tests them for being zero.
\<close>

datatype json =
  JUndefined
| JNull
| JBool bool
| JNum int
| JStr string
| JArr "json list"
| JObj "(string \<times> json) list"

datatype js_error = TypeError

text \<open>Truthiness, as \<^verbatim>\<open>!x\<close> and \<^verbatim>\<open>x || y\<close> test it.\<close>

fun truthy :: "json \<Rightarrow> bool" where
  "truthy JUndefined = False"
| "truthy JNull = False"
| "truthy (JBool b) = b"
| "truthy (JNum n) = (n \<noteq> 0)"
| "truthy (JStr s) = (s \<noteq> [])"
| "truthy (JArr xs) = True"
| "truthy (JObj kvs) = True"

definition or_else :: "json \<Rightarrow> json \<Rightarrow> json" where
  "or_else x y = (if truthy x then x else y)"

text \<open>
  Reading the property \<open>k\<close> of a value that is neither null nor undefined, for the
  property names the migrator uses: an object gives its own property, an array and a
  string give their \<^verbatim>\<open>length\<close>, and nothing else is defined.
\<close>

fun get_prop :: "json \<Rightarrow> string \<Rightarrow> json" where
  "get_prop (JObj kvs) k = (case map_of kvs k of Some v \<Rightarrow> v | None \<Rightarrow> JUndefined)"
| "get_prop (JArr xs) k = (if k = ''length'' then JNum (int (length xs)) else JUndefined)"
| "get_prop (JStr s) k = (if k = ''length'' then JNum (int (length s)) else JUndefined)"
| "get_prop v k = JUndefined"

fun nullish :: "json \<Rightarrow> bool" where
  "nullish JUndefined = True"
| "nullish JNull = True"
| "nullish v = False"

text \<open>Assignment \<^verbatim>\<open>obj.k = v\<close>: an existing property keeps its place, a new one is added last.\<close>

fun set_prop :: "string \<Rightarrow> json \<Rightarrow> (string \<times> json) list \<Rightarrow> (string \<times> json) list" where
  "set_prop k v [] = [(k, v)]"
| "set_prop k v ((k', v') # kvs) =
     (if k' = k then (k, v) # kvs else (k', v') # set_prop k v kvs)"

text \<open>Decimal digits of an array index, as a property key.\<close>

fun decimal :: "nat \<Rightarrow> string" where
  "decimal n =
     (if n < 10 then [char_of (48 + n)]
      else decimal (n div 10) @ [char_of (48 + n mod 10)])"

text \<open>
  The own enumerable properties that \<^verbatim>\<open>{...x}\<close> copies: those of an object, the indexed
  elements of an array, the indexed characters of a string, and none otherwise.
\<close>

fun spread :: "json \<Rightarrow> (string \<times> json) list" where
  "spread (JObj kvs) = kvs"
| "spread (JArr xs) = map (\<lambda>(i, x). (decimal i, x)) (enumerate 0 xs)"
| "spread (JStr s) = map (\<lambda>(i, c). (decimal i, JStr [c])) (enumerate 0 s)"
| "spread v = []"

text \<open>An object literal \<^verbatim>\<open>{...x, k1: v1, ..., kn: vn}\<close>.\<close>

definition obj_with :: "(string \<times> json) list \<Rightarrow> (string \<times> json) list \<Rightarrow> json" where
  "obj_with base kvs = JObj (foldl (\<lambda>acc (k, v). set_prop k v acc) base kvs)"

text \<open>
  What the host provides to the migrator: \<^verbatim>\<open>Number(s)\<close> on a string (\<open>None\<close>: NaN), in
  any linearly ordered number type; the origin of \<^verbatim>\<open>new URL(x)\<close> (\<open>None\<close>: the
  constructor throws); and the date string \<^verbatim>\<open>new Date().toISOString().split('T')[0]\<close>.
\<close>

record 'n host =
  Number :: "string \<Rightarrow> 'n option"
  url_origin :: "json \<Rightarrow> string option"
  today_string :: string

text \<open>\<^verbatim>\<open>s.split('.')\<close>: the pieces between the dots, one more than there are dots.\<close>

fun split_on :: "char \<Rightarrow> string \<Rightarrow> string list" where
  "split_on d [] = [[]]"
| "split_on d (c # cs) =
     (if c = d then [] # split_on d cs
      else (let r = split_on d cs in (c # hd r) # tl r))"

text \<open>
  \<^verbatim>\<open>compareVersions(v1, v2)\<close>, lines 148-161. \<^verbatim>\<open>parts[i] || 0\<close> is 0 for a missing part,
  for NaN and for 0. Calling \<^verbatim>\<open>split\<close> on anything but a string is a \<^verbatim>\<open>TypeError\<close>.
\<close>

definition part_or_zero :: "('n::{zero,linorder}) option \<Rightarrow> 'n" where
  "part_or_zero p = (case p of None \<Rightarrow> 0 | Some n \<Rightarrow> n)"

fun compare_parts :: "('n::{zero,linorder}) option list \<Rightarrow> 'n option list \<Rightarrow> int" where
  "compare_parts [] [] = 0"
| "compare_parts (p # ps) [] =
     (let part1 = part_or_zero p; part2 = 0
      in if part1 < part2 then - 1 else if part1 > part2 then 1 else compare_parts ps [])"
| "compare_parts [] (q # qs) =
     (let part1 = 0; part2 = part_or_zero q
      in if part1 < part2 then - 1 else if part1 > part2 then 1 else compare_parts [] qs)"
| "compare_parts (p # ps) (q # qs) =
     (let part1 = part_or_zero p; part2 = part_or_zero q
      in if part1 < part2 then - 1 else if part1 > part2 then 1 else compare_parts ps qs)"

definition compareVersions ::
  "(string \<Rightarrow> ('n::{zero,linorder}) option) \<Rightarrow> json \<Rightarrow> json \<Rightarrow> js_error + int" where
  "compareVersions num v1 v2 =
     (case v1 of
        JStr s1 \<Rightarrow>
          (case v2 of
             JStr s2 \<Rightarrow>
               Inr (compare_parts (map num (split_on CHR ''.'' s1))
                                  (map num (split_on CHR ''.'' s2)))
           | _ \<Rightarrow> Inl TypeError)
      | _ \<Rightarrow> Inl TypeError)"

text \<open>\<^verbatim>\<open>getFaviconFromUrl(url)\<close>, lines 166-173.\<close>

definition getFaviconFromUrl :: "'n host \<Rightarrow> json \<Rightarrow> json" where
  "getFaviconFromUrl H u =
     (case url_origin H u of
        Some domain \<Rightarrow> JStr (domain @ ''/favicon.ico'')
      | None \<Rightarrow> JNull)"

text \<open>
  \<^verbatim>\<open>data.sites?.length || 0\<close>: undefined for a null or undefined \<^verbatim>\<open>sites\<close>.
\<close>

definition sites_length_or_zero :: "json \<Rightarrow> json" where
  "sites_length_or_zero d =
     (let ss = get_prop d ''sites''
      in or_else (if nullish ss then JUndefined else get_prop ss ''length'') (JNum 0))"

text \<open>\<^verbatim>\<open>migrateTo1_0_0(data)\<close>, lines 50-66; \<open>data\<close> is an object.\<close>

definition migrateTo1_0_0 :: "'n host \<Rightarrow> json \<Rightarrow> js_error + json" where
  "migrateTo1_0_0 H data =
     Inr (JObj
       [(''version'', JStr ''1.0.0''),
        (''lastReset'', JStr (today_string H)),
        (''settings'', or_else (get_prop data ''settings'') (JObj [])),
        (''categories'', or_else (get_prop data ''categories'') (JArr [])),
        (''sites'', or_else (get_prop data ''sites'') (JArr [])),
        (''analytics'', JObj
           [(''totalCheckIns'', JNum 0),
            (''currentStreak'', JNum 0),
            (''longestStreak'', JNum 0),
            (''averageDaily'', JNum 0),
            (''sitesAdded'', sites_length_or_zero data),
            (''sitesArchived'', JNum 0)])])"

text \<open>
  \<^verbatim>\<open>xs.map(f)\<close> where \<open>f\<close> may throw: the first exception ends the loop.
\<close>

fun map_throwing :: "('a \<Rightarrow> js_error + 'b) \<Rightarrow> 'a list \<Rightarrow> js_error + 'b list" where
  "map_throwing f [] = Inr []"
| "map_throwing f (x # xs) =
     (case f x of
        Inl e \<Rightarrow> Inl e
      | Inr y \<Rightarrow> (case map_throwing f xs of Inl e \<Rightarrow> Inl e | Inr ys \<Rightarrow> Inr (y # ys)))"

text \<open>The credential callback of lines 117-125; reading a property of null throws.\<close>

definition migrate_credential :: "json \<Rightarrow> json \<Rightarrow> js_error + json" where
  "migrate_credential site cred =
     (if nullish cred then Inl TypeError
      else Inr (obj_with (spread cred)
        [(''customFields'', or_else (get_prop cred ''customFields'') (JArr [])),
         (''checkInHistory'', or_else (get_prop cred ''checkInHistory'') (JArr [])),
         (''lastPasswordChange'',
            or_else (get_prop cred ''lastPasswordChange'') (get_prop site ''createdAt'')),
         (''passwordExpiry'', or_else (get_prop cred ''passwordExpiry'') JNull),
         (''strength'', or_else (get_prop cred ''strength'') (JStr ''unknown'')),
         (''breached'', or_else (get_prop cred ''breached'') (JBool False))]))"

text \<open>
  The site callback of lines 106-126. \<^verbatim>\<open>(site.credentials || []).map\<close> is a call of
  \<^verbatim>\<open>undefined\<close> unless the value is an array.
\<close>

definition migrate_site :: "'n host \<Rightarrow> json \<Rightarrow> js_error + json" where
  "migrate_site H site =
     (if nullish site then Inl TypeError
      else
        (case or_else (get_prop site ''credentials'') (JArr []) of
           JArr creds \<Rightarrow>
             (case map_throwing (migrate_credential site) creds of
                Inl e \<Rightarrow> Inl e
              | Inr creds' \<Rightarrow>
                  Inr (obj_with (spread site)
                    [(''favicon'',
                        or_else (get_prop site ''favicon'') (getFaviconFromUrl H (get_prop site ''url''))),
                     (''priority'', or_else (get_prop site ''priority'') (JNum 0)),
                     (''color'', or_else (get_prop site ''color'') (JStr ''#3b82f6'')),
                     (''metadata'', or_else (get_prop site ''metadata'')
                        (JObj [(''loginFrequency'', JStr ''daily''),
                               (''importance'', JStr ''normal''),
                               (''lastIssue'', JNull),
                               (''averageCheckInTime'', JStr ''09:00'')])),
                     (''credentials'', JArr creds')]))
         | _ \<Rightarrow> Inl TypeError))"

text \<open>\<^verbatim>\<open>migrateTo2_0_0(data)\<close>, lines 72-143; \<open>data\<close> is an object.\<close>

definition migrateTo2_0_0 :: "'n host \<Rightarrow> json \<Rightarrow> js_error + json" where
  "migrateTo2_0_0 H data =
     (let m0 = spread data;
          s = or_else (get_prop (JObj m0) ''settings'') (JObj []);
          settings' = JObj
            [(''theme'', or_else (get_prop s ''theme'') (JStr ''auto'')),
             (''viewMode'', or_else (get_prop s ''viewMode'') (JStr ''grid'')),
             (''autoReset'', JBool (get_prop s ''autoReset'' \<noteq> JBool False)),
             (''resetTime'', or_else (get_prop s ''resetTime'') (JStr ''00:00'')),
             (''notifications'', or_else (get_prop s ''notifications'')
                (JObj [(''enabled'', JBool True),
                       (''reminderTime'', JStr ''09:00''),
                       (''staleDays'', JNum 7)])),
             (''security'', or_else (get_prop s ''security'')
                (JObj [(''masterPasswordEnabled'', JBool False),
                       (''autoLockMinutes'', JNum 15),
                       (''clipboardClearSeconds'', JNum 30),
                       (''requireAuthOnStart'', JBool False)])),
             (''display'', or_else (get_prop s ''display'')
                (JObj [(''density'', JStr ''comfortable''),
                       (''cardsPerRow'', JStr ''auto''),
                       (''showFavicons'', JBool True),
                       (''showLastCheckin'', JBool True)]))];
          m1 = set_prop ''settings'' settings' m0;
          sites_v = get_prop (JObj m1) ''sites''
      in case (if truthy sites_v then
                 (case sites_v of
                    JArr ss \<Rightarrow>
                      (case map_throwing (migrate_site H) ss of
                         Inl e \<Rightarrow> Inl e
                       | Inr ss' \<Rightarrow> Inr (set_prop ''sites'' (JArr ss') m1))
                  | _ \<Rightarrow> Inl TypeError)
               else Inr m1) of
           Inl e \<Rightarrow> Inl e
         | Inr m2 \<Rightarrow>
             Inr (JObj
               (if \<not> truthy (get_prop (JObj m2) ''analytics'') then
                  set_prop ''analytics''
                    (JObj [(''totalCheckIns'', JNum 0),
                           (''currentStreak'', JNum 0),
                           (''longestStreak'', JNum 0),
                           (''averageDaily'', JNum 0),
                           (''sitesAdded'', sites_length_or_zero (JObj m2)),
                           (''sitesArchived'', JNum 0),
                           (''lastCheckIn'', JNull)]) m2
                else m2)))"

text \<open>The table of the constructor, lines 11-14.\<close>

definition migrations :: "'n host \<Rightarrow> (string \<times> (json \<Rightarrow> js_error + json)) list" where
  "migrations H = [(''1.0.0'', migrateTo1_0_0 H), (''2.0.0'', migrateTo2_0_0 H)]"

text \<open>
  The loop of lines 35-41: \<open>dataVersion\<close> is fixed before the loop, and after a step the
  result's \<^verbatim>\<open>version\<close> is set to the step's version.
\<close>

fun run_migrations ::
  "(string \<Rightarrow> ('n::{zero,linorder}) option) \<Rightarrow> json \<Rightarrow>
   (string \<times> (json \<Rightarrow> js_error + json)) list \<Rightarrow> json \<Rightarrow> js_error + json" where
  "run_migrations num dataVersion [] migratedData = Inr migratedData"
| "run_migrations num dataVersion ((v, step) # ms) migratedData =
     (case compareVersions num dataVersion (JStr v) of
        Inl e \<Rightarrow> Inl e
      | Inr c \<Rightarrow>
          if c < 0 then
            (case step migratedData of
               Inl e \<Rightarrow> Inl e
             | Inr d \<Rightarrow> run_migrations num dataVersion ms (JObj (set_prop ''version'' (JStr v) (spread d))))
          else run_migrations num dataVersion ms migratedData)"

text \<open>\<^verbatim>\<open>migrate(data)\<close>, lines 28-44.\<close>

definition migrate :: "('n::{zero,linorder}) host \<Rightarrow> json \<Rightarrow> js_error + json" where
  "migrate H data =
     (if \<not> truthy data then Inr JNull
      else
        (let migratedData = JObj (spread data);
             dataVersion = or_else (get_prop data ''version'') (JStr ''0.0.0'')
         in run_migrations (Number H) dataVersion (migrations H) migratedData))"

text \<open>
  \<^verbatim>\<open>migrate(migrate(data))\<close>: the second call runs when the first has returned, on the same
  host at a later time (\<open>t\<close> is the date string then).
\<close>

definition migrate_twice :: "('n::{zero,linorder}) host \<Rightarrow> string \<Rightarrow> json \<Rightarrow> js_error + json" where
  "migrate_twice H t data =
     (case migrate H data of
        Inl e \<Rightarrow> Inl e
      | Inr d \<Rightarrow> migrate (H\<lparr>today_string := t\<rparr>) d)"

section \<open>Sequences of store operations\<close>

text \<open>
  The operations of the store, each with the values it reads from the clock, from
  \<^verbatim>\<open>generateId\<close> and from its caller, and their effect on the storage.
\<close>

datatype store_op =
  Init timestamp "nat \<Rightarrow> string" timestamp timestamp
| CheckInCredential timestamp timestamp timestamp string string string
| ResetCredential string string
| ResetAllCredentials timestamp
| CheckDailyReset timestamp timestamp
| AddSite string timestamp timestamp site_data
| UpdateSite timestamp string site_updates
| DeleteSite string
| AddCategory string category_data
| ImportData "import_data option"
| ClearAllData

fun exec_op :: "store_op \<Rightarrow> storage \<Rightarrow> storage" where
  "exec_op (Init t gen t_check t_reset) store = init t gen t_check t_reset store"
| "exec_op (CheckInCredential now t_today t_datenow dev siteId credentialId) store =
     snd (checkInCredential now t_today t_datenow dev siteId credentialId store)"
| "exec_op (ResetCredential siteId credentialId) store =
     snd (resetCredential siteId credentialId store)"
| "exec_op (ResetAllCredentials t) store = snd (resetAllCredentials t store)"
| "exec_op (CheckDailyReset t t_reset) store = checkDailyReset t t_reset store"
| "exec_op (AddSite gen_id t_created t_updated siteData) store =
     snd (addSite gen_id t_created t_updated siteData store)"
| "exec_op (UpdateSite t ident updates) store = snd (updateSite t ident updates store)"
| "exec_op (DeleteSite ident) store = snd (deleteSite ident store)"
| "exec_op (AddCategory gen_id categoryData) store = snd (addCategory gen_id categoryData store)"
| "exec_op (ImportData parsed) store = snd (importData parsed store)"
| "exec_op ClearAllData store = clearAllData store"

definition run_ops :: "store_op list \<Rightarrow> storage \<Rightarrow> storage" where
  "run_ops ops store = fold exec_op ops store"

text \<open>
  Repeated check-ins of one credential; each element gives the three clock reads and the
  device string of one call.
\<close>

fun checkIns ::
  "(timestamp \<times> timestamp \<times> timestamp \<times> string) list \<Rightarrow> string \<Rightarrow> string \<Rightarrow> storage \<Rightarrow> storage" where
  "checkIns [] siteId credentialId store = store"
| "checkIns ((now, t_today, t_datenow, dev) # rs) siteId credentialId store =
     checkIns rs siteId credentialId
       (snd (checkInCredential now t_today t_datenow dev siteId credentialId store))"

definition entry_of :: "timestamp \<times> timestamp \<times> timestamp \<times> string \<Rightarrow> history_entry" where
  "entry_of r = (case r of (now, t_today, t_datenow, dev) \<Rightarrow> \<lparr>timestamp = now, device = dev\<rparr>)"

text \<open>The credential that \<^verbatim>\<open>find\<close> reaches for a pair of identifiers.\<close>

definition lookup_credential :: "string \<Rightarrow> string \<Rightarrow> storage \<Rightarrow> credential option" where
  "lookup_credential siteId credentialId store =
     (case store of
        None \<Rightarrow> None
      | Some st \<Rightarrow>
          (case find (\<lambda>s. id_site s = siteId) (sites st) of
             None \<Rightarrow> None
           | Some s \<Rightarrow> find (\<lambda>c. id_cred c = credentialId) (credentials s)))"

section \<open>Sample documents and hosts\<close>

definition sample_credential :: "string \<Rightarrow> timestamp option \<Rightarrow> credential" where
  "sample_credential i t =
     \<lparr>id_cred = i, label = ''Main'', email = ''user@example.com'', password = ''secret'',
      notes_cred = [], checkedInOn = t, checkInHistory = Some []\<rparr>"

definition sample_site :: "string \<Rightarrow> credential list \<Rightarrow> site" where
  "sample_site i cs =
     \<lparr>id_site = i, name = ''Mail'', url = ''https://mail.example.com'', category = None,
      tags = Some [''daily''], notes_site = [], credentials = cs,
      createdAt = 1748736000000, updatedAt = 1748736000000\<rparr>"

definition sample_state :: "date \<Rightarrow> analytics_rec \<Rightarrow> site list \<Rightarrow> state" where
  "sample_state d a ss =
     \<lparr>version = ''2.1.0'', lastReset = d,
      settings = \<lparr>theme = ''auto'', viewMode = ''grid'', autoReset = True, resetTime = ''00:00''\<rparr>,
      categories = [], sites = ss, analytics = a\<rparr>"

text \<open>
  The scenario of the specification: streak 3, longest 5, last check-in
  2025-06-01T09:00:00Z (1748768400000 ms, day 20240), one site with one credential.
\<close>

definition streak_doc :: state where
  "streak_doc =
     sample_state 20240
       \<lparr>totalCheckIns = 10, currentStreak = 3, longestStreak = 5, averageDaily = 0,
        sitesAdded = 1, sitesArchived = 0, lastCheckIn = Some 1748768400000\<rparr>
       [sample_site ''s1'' [sample_credential ''c1'' None]]"

text \<open>A document that has never seen a check-in.\<close>

definition fresh_doc :: state where
  "fresh_doc =
     sample_state 20240
       \<lparr>totalCheckIns = 0, currentStreak = 0, longestStreak = 0, averageDaily = 0,
        sitesAdded = 1, sitesArchived = 0, lastCheckIn = None\<rparr>
       [sample_site ''s1'' [sample_credential ''c1'' None]]"

text \<open>
  A site with two credentials of which only the first was checked in on day 20241
  (2025-06-02).
\<close>

definition partial_site :: site where
  "partial_site =
     sample_site ''s1''
       [sample_credential ''c1'' (Some 1748858400000), sample_credential ''c2'' None]"

text \<open>
  A stand-in for the browser's primitives that satisfies their round-trip laws: the
  cipher prefixes the key, base64 is the identity.
\<close>

definition toy_platform :: "('d \<Rightarrow> string) \<Rightarrow> (string \<Rightarrow> 'd option) \<Rightarrow> 'd platform" where
  "toy_platform str prs =
     \<lparr>json_stringify = str,
      json_parse = prs,
      text_encode = map (\<lambda>c. of_nat (of_char c)),
      text_decode = map (\<lambda>b. char_of (unat b)),
      btoa = (\<lambda>s. s),
      atob = Some,
      pbkdf2_sha256 = (\<lambda>pw salt n len. pw @ salt),
      aes_gcm_encrypt = (\<lambda>k iv m. k @ m),
      aes_gcm_decrypt = (\<lambda>k iv c. if take (length k) c = k then Some (drop (length k) c)
                                    else None)\<rparr>"

text \<open>
  A host whose \<^verbatim>\<open>Number\<close> reads unsigned decimal numerals and the empty string, and
  whose URL parser takes every string for an origin.
\<close>

fun decimal_value :: "nat \<Rightarrow> string \<Rightarrow> int option" where
  "decimal_value acc [] = Some (int acc)"
| "decimal_value acc (c # cs) =
     (let n = (of_char c :: nat)
      in if 48 \<le> n \<and> n \<le> 57 then decimal_value (10 * acc + (n - 48)) cs else None)"

definition sample_host :: "int host" where
  "sample_host =
     \<lparr>Number = decimal_value 0,
      url_origin = (\<lambda>u. case u of JStr s \<Rightarrow> Some s | _ \<Rightarrow> None),
      today_string = ''2025-06-02''\<rparr>"

definition legacy_doc :: json where
  "legacy_doc =
     JObj [(''sites'',
            JArr [JObj [(''id'', JStr ''s1''), (''name'', JStr ''Mail''),
                        (''url'', JStr ''https://mail.example.com''),
                        (''credentials'',
                           JArr [JObj [(''id'', JStr ''c1''),
                                       (''email'', JStr ''user@example.com'')]])]])]"

text \<open>
  A document last reset on 2025-01-01 (day 20089) with one credential checked in at
  2025-01-01T09:00:00Z.
\<close>

definition reset_doc :: state where
  "reset_doc =
     sample_state 20089
       \<lparr>totalCheckIns = 2, currentStreak = 0, longestStreak = 0, averageDaily = 0,
        sitesAdded = 1, sitesArchived = 0, lastCheckIn = Some 1735722000000\<rparr>
       [sample_site ''s1'' [sample_credential ''c1'' (Some 1735722000000),
                            sample_credential ''c2'' None]]"

definition sample_site_data :: "string option \<Rightarrow> site_data" where
  "sample_site_data i =
     \<lparr>sd_id = i, sd_createdAt = None, sd_updatedAt = None, sd_name = ''Mail'',
      sd_url = ''https://mail.example.com'', sd_category = None, sd_tags = Some [],
      sd_notes = [], sd_credentials = [sample_credential ''c1'' None]\<rparr>"

text \<open>
  A site is added and its credential checked in twice; the second check-in reads the
  clock just before midnight and \<^verbatim>\<open>updateStreak\<close> reads it just after.
\<close>

definition sample_ops :: "store_op list" where
  "sample_ops =
     [AddSite ''s1'' 1748768400000 1748768400000 (sample_site_data None),
      CheckInCredential 1748768400000 1748768400000 1748768400000 ''dev'' ''s1'' ''c1'',
      CheckInCredential 1748822399999 1748822400001 1748822400001 ''dev'' ''s1'' ''c1'']"

definition midnight_op :: store_op where
  "midnight_op =
     CheckInCredential 1748822399999 1748822400001 1748822400001 ''dev'' ''s1'' ''c1''"

text \<open>A document that is already at the configured version.\<close>

definition current_doc :: json where
  "current_doc = JObj [(''version'', JStr ''2.1.0''), (''sites'', JArr [])]"

text \<open>A hundred and fifty check-ins, one millisecond apart.\<close>

definition many_reads :: "(timestamp \<times> timestamp \<times> timestamp \<times> string) list" where
  "many_reads =
     map (\<lambda>i. (1748858400000 + int i, 1748858400000 + int i, 1748858400000 + int i, ''dev''))
         [0..<150]"

definition status_filter :: "string \<Rightarrow> filters" where
  "status_filter st = \<lparr>search = [], status = st, filter_category = None, filter_tags = []\<rparr>"

definition export_platform :: "export_data platform" where
  "export_platform = toy_platform (\<lambda>d. ''{}'') (\<lambda>s. None)"

section \<open>Notions used to state the properties\<close>

text \<open>The history of a credential, \<^verbatim>\<open>[]\<close> when the field is missing.\<close>

definition history_or_empty :: "credential \<Rightarrow> history_entry list" where
  "history_or_empty c = (case checkInHistory c of None \<Rightarrow> [] | Some h \<Rightarrow> h)"

text \<open>
  The calendar date in the words of the specification and of \<^verbatim>\<open>HOW-IT-WORKS.md\<close>
  ("the system uses your browser's local time"): the date on a clock that is
  \<open>offset_minutes\<close> east of UTC. \<^verbatim>\<open>CONFIG.reset.timezone\<close> is \<^verbatim>\<open>'local'\<close>, and \<^verbatim>\<open>isToday\<close>
  of \<^verbatim>\<open>shared/constants.js\<close> compares \<^verbatim>\<open>toDateString()\<close>, which is this date.
\<close>

definition localDate :: "int \<Rightarrow> timestamp \<Rightarrow> date" where
  "localDate offset_minutes t = (t + offset_minutes * 60000) div 86400000"

text \<open>
  The status of a site in the words of the specification: done when every credential
  has been checked in today. \<^verbatim>\<open>SitesService.isSiteCompleteToday\<close> and
  \<^verbatim>\<open>SitesService.getSiteStatus\<close> use the same notion for a site with credentials.
\<close>

definition spec_site_done :: "timestamp \<Rightarrow> site \<Rightarrow> bool" where
  "spec_site_done now s =
     list_all (\<lambda>c. case checkedInOn c of None \<Rightarrow> False | Some t \<Rightarrow> isToday now t)
       (credentials s)"

text \<open>
  What the version comparison needs of \<^verbatim>\<open>Number\<close>: the numerals 0, 1 and 2 denote zero
  and two larger numbers in increasing order.
\<close>

definition host_ok :: "(string \<Rightarrow> ('n::{zero,linorder}) option) \<Rightarrow> bool" where
  "host_ok num \<longleftrightarrow>
     part_or_zero (num ''0'') = 0 \<and>
     0 < part_or_zero (num ''1'') \<and>
     part_or_zero (num ''1'') < part_or_zero (num ''2'')"

text \<open>The streak invariant as a predicate on the storage.\<close>

definition streak_ok :: "storage \<Rightarrow> bool" where
  "streak_ok store =
     (case store of None \<Rightarrow> True
      | Some d \<Rightarrow> currentStreak (analytics d) \<le> longestStreak (analytics d))"

section \<open>Facts shared by the proofs\<close>

lemmas sample_defs = sample_state_def sample_site_def sample_credential_def

lemmas config_defs = CONFIG_features_checkInHistory_def CONFIG_limits_maxHistoryEntries_def
  CONFIG_reset_autoReset_def CONFIG_app_version_def

lemma updateStreak_clamps:
  "lastCheckIn (analytics st) \<noteq> None \<Longrightarrow>
   currentStreak (analytics (updateStreak t1 t2 st))
     \<le> longestStreak (analytics (updateStreak t1 t2 st))"
  by (auto simp: updateStreak_def Let_def)

lemma updateStreak_raises:
  "lastCheckIn (analytics st) \<noteq> None \<Longrightarrow>
   longestStreak (analytics st) < currentStreak (analytics (updateStreak t1 t2 st)) \<Longrightarrow>
   longestStreak (analytics (updateStreak t1 t2 st))
     = currentStreak (analytics (updateStreak t1 t2 st))"
  by (auto simp: updateStreak_def Let_def split: if_splits)

lemma checkIn_analytics:
  "checkInCredential now t1 t2 dev sid cid (Some st) = (r, Some st') \<Longrightarrow>
   st' = st \<or>
   analytics st' = analytics (updateStreak t1 t2
       (st\<lparr>analytics := (analytics st)\<lparr>totalCheckIns := totalCheckIns (analytics st) + 1,
                                        lastCheckIn := Some now\<rparr>\<rparr>))"
  by (auto simp: checkInCredential_def Let_def updateStreak_def split: option.splits)

lemma checkIn_streak_ok:
  "checkInCredential now t1 t2 dev sid cid (Some st) = (r, Some st') \<Longrightarrow>
   st' = st \<or> currentStreak (analytics st') \<le> longestStreak (analytics st')"
  by (drule checkIn_analytics) (auto simp: updateStreak_clamps)

text \<open>Only a check-in touches the two streak counters.\<close>

lemma exec_op_analytics:
  "exec_op op (Some st) = Some st' \<Longrightarrow>
   (\<forall>now t1 t2 dev sid cid. op \<noteq> CheckInCredential now t1 t2 dev sid cid) \<Longrightarrow>
   currentStreak (analytics st') = currentStreak (analytics st) \<and>
   longestStreak (analytics st') = longestStreak (analytics st)"
  by (cases op)
     (auto simp: init_def checkDailyReset_def resetAllCredentials_def resetCredential_def
        addSite_def updateSite_def deleteSite_def addCategory_def importData_def clearAllData_def
        Let_def split: option.splits if_splits)

lemma exec_op_streak_ok: "streak_ok store \<Longrightarrow> streak_ok (exec_op op store)"
proof (cases store)
  case None
  then show ?thesis
    by (cases op)
       (auto simp: streak_ok_def init_def checkDailyReset_def resetAllCredentials_def
          resetCredential_def addSite_def updateSite_def deleteSite_def addCategory_def
          importData_def clearAllData_def checkInCredential_def initializeDefaultState_def
          Let_def split: option.splits if_splits)
next
  case (Some st)
  assume ok: "streak_ok store"
  show ?thesis
  proof (cases "exec_op op store")
    case None
    then show ?thesis by (simp add: streak_ok_def)
  next
    case st': (Some st')
    show ?thesis
    proof (cases "\<exists>now t1 t2 dev sid cid. op = CheckInCredential now t1 t2 dev sid cid")
      case True
      then obtain now t1 t2 dev sid cid where op: "op = CheckInCredential now t1 t2 dev sid cid"
        by blast
      obtain r where "checkInCredential now t1 t2 dev sid cid (Some st) = (r, Some st')"
        using st' Some op by (cases "checkInCredential now t1 t2 dev sid cid (Some st)") auto
      from checkIn_streak_ok [OF this] ok Some st' show ?thesis
        by (auto simp: streak_ok_def)
    next
      case False
      with exec_op_analytics [of op st st'] st' Some ok show ?thesis
        by (auto simp: streak_ok_def)
    qed
  qed
qed

lemma run_ops_streak_ok: "streak_ok store \<Longrightarrow> streak_ok (run_ops ops store)"
  unfolding run_ops_def
  by (induction ops arbitrary: store) (auto intro: exec_op_streak_ok)

lemma default_streak_ok: "streak_ok (snd (initializeDefaultState t gen))"
  by (simp add: streak_ok_def initializeDefaultState_def Let_def)

lemma exec_op_raises:
  assumes "exec_op op (Some st) = Some st'"
    and "longestStreak (analytics st) < currentStreak (analytics st')"
    and "currentStreak (analytics st) < currentStreak (analytics st')"
  shows "longestStreak (analytics st') = currentStreak (analytics st')"
proof (cases "\<exists>now t1 t2 dev sid cid. op = CheckInCredential now t1 t2 dev sid cid")
  case True
  then obtain now t1 t2 dev sid cid where op: "op = CheckInCredential now t1 t2 dev sid cid"
    by blast
  obtain r where "checkInCredential now t1 t2 dev sid cid (Some st) = (r, Some st')"
    using assms(1) op by (cases "checkInCredential now t1 t2 dev sid cid (Some st)") auto
  from checkIn_analytics [OF this] assms(3)
  have a: "analytics st' = analytics (updateStreak t1 t2
       (st\<lparr>analytics := (analytics st)\<lparr>totalCheckIns := totalCheckIns (analytics st) + 1,
                                        lastCheckIn := Some now\<rparr>\<rparr>))"
    by auto
  show ?thesis
    unfolding a
    by (rule updateStreak_raises) (use assms(2) a in simp_all)
next
  case False
  with exec_op_analytics [OF assms(1)] assms(3) show ?thesis by auto
qed

section \<open>Check-in and the streak\<close>

text \<open>
  On its own \<^verbatim>\<open>updateStreak\<close> returns early for a document without \<^verbatim>\<open>lastCheckIn\<close>,
  before the longest streak is adjusted. \<^verbatim>\<open>checkInCredential\<close> never calls it on such a
  document, because it has stored the new \<^verbatim>\<open>lastCheckIn\<close> already.
\<close>

lemma updateStreak_without_lastCheckIn:
  "lastCheckIn (analytics st) = None \<Longrightarrow>
   updateStreak t1 t2 st = st\<lparr>analytics := (analytics st)\<lparr>currentStreak := 1\<rparr>\<rparr>"
  by (simp add: updateStreak_def)

lemma isoDate_yesterday: "isoDate (t - 86400000) = isoDate t - 1"
  by (simp add: isoDate_def)

text \<open>
  When the clock reads of a check-in fall on one UTC day, the current streak is what it
  was before, whatever the prior \<^verbatim>\<open>lastCheckIn\<close>.
\<close>

lemma checkIn_same_day_keeps_streak:
  assumes "checkInCredential now t_today t_datenow dev sid cid (Some st) = (r, Some st')"
    and "isoDate t_today = isoDate now" and "isoDate t_datenow = isoDate now"
  shows "currentStreak (analytics st') = currentStreak (analytics st)"
  using assms
  by (auto simp: checkInCredential_def Let_def updateStreak_def isoDate_yesterday
      split: option.splits)

text \<open>
  Claim C1 (streak algorithm of \<^verbatim>\<open>checkInCredential\<close>). The claim expects the scenario
  document (streak 3, longest 5, last check-in on 2025-06-01) to reach streak 4 by a
  check-in on 2025-06-02, and a document without a prior check-in to reach streak 1.
  \<^verbatim>\<open>checkInCredential\<close> stores the new \<^verbatim>\<open>lastCheckIn\<close> before it calls
  \<^verbatim>\<open>updateStreak\<close>, which therefore compares the date of this very check-in with today:
  with all clock reads at 2025-06-02T10:00:00Z the scenario document keeps streak 3 and
  the fresh document keeps streak 0.
\<close>

theorem checkIn_streak_example:
  "map_option (\<lambda>s. (currentStreak (analytics s), longestStreak (analytics s)))
     (snd (checkInCredential 1748858400000 1748858400000 1748858400000 ''dev'' ''s1'' ''c1''
            (Some streak_doc))) = Some (3, 5) \<and>
   map_option (\<lambda>s. currentStreak (analytics s))
     (snd (checkInCredential 1748858400000 1748858400000 1748858400000 ''dev'' ''s1'' ''c1''
            (Some fresh_doc))) = Some 0"
  by (simp add: checkInCredential_def streak_doc_def fresh_doc_def sample_defs updateStreak_def
        isoDate_def addHistory_def Let_def config_defs)

text \<open>
  Claim C2 (streak invariant). From the bootstrap document, after any finite sequence of
  store operations the current streak is at most the longest streak; and an operation
  that raises the current streak above the longest streak it found leaves the longest
  streak equal to the new current streak.
\<close>

theorem streak_invariant:
  "(\<forall>d. run_ops ops (snd (initializeDefaultState t gen)) = Some d \<longrightarrow>
        currentStreak (analytics d) \<le> longestStreak (analytics d)) \<and>
   (\<forall>st st'. exec_op op (Some st) = Some st' \<and>
        currentStreak (analytics st) < currentStreak (analytics st') \<and>
        longestStreak (analytics st) < currentStreak (analytics st') \<longrightarrow>
        longestStreak (analytics st') = currentStreak (analytics st'))"
proof (intro conjI allI impI)
  fix d
  assume "run_ops ops (snd (initializeDefaultState t gen)) = Some d"
  with run_ops_streak_ok [OF default_streak_ok, of ops t gen]
  show "currentStreak (analytics d) \<le> longestStreak (analytics d)"
    by (simp add: streak_ok_def)
next
  fix st st'
  assume "exec_op op (Some st) = Some st' \<and>
        currentStreak (analytics st) < currentStreak (analytics st') \<and>
        longestStreak (analytics st) < currentStreak (analytics st')"
  then show "longestStreak (analytics st') = currentStreak (analytics st')"
    using exec_op_raises by blast
qed

theorem streak_invariant_witness:
  "(\<exists>d. run_ops sample_ops (snd (initializeDefaultState 1748768400000 decimal)) = Some d \<and>
        currentStreak (analytics d) = 1 \<and>
        currentStreak (analytics d) \<le> longestStreak (analytics d)) \<and>
   (\<exists>st'. exec_op midnight_op (Some fresh_doc) = Some st' \<and>
        currentStreak (analytics fresh_doc) < currentStreak (analytics st') \<and>
        longestStreak (analytics fresh_doc) < currentStreak (analytics st') \<and>
        longestStreak (analytics st') = currentStreak (analytics st'))"
proof -
  have e1: "\<exists>d. run_ops sample_ops (snd (initializeDefaultState 1748768400000 decimal)) = Some d \<and>
              currentStreak (analytics d) = 1"
    by (simp add: run_ops_def sample_ops_def initializeDefaultState_def addSite_def
          checkInCredential_def updateStreak_def addHistory_def isoDate_def Let_def
          sample_site_data_def sample_defs config_defs)
  have e2: "\<exists>st'. exec_op midnight_op (Some fresh_doc) = Some st' \<and>
        currentStreak (analytics fresh_doc) < currentStreak (analytics st') \<and>
        longestStreak (analytics fresh_doc) < currentStreak (analytics st')"
    by (simp add: midnight_op_def fresh_doc_def
          checkInCredential_def updateStreak_def addHistory_def isoDate_def Let_def
          sample_defs config_defs)
  from e1 e2 streak_invariant [of sample_ops 1748768400000 decimal midnight_op]
  show ?thesis by blast
qed

section \<open>Soft failure of a check-in\<close>

text \<open>
  Claim C9 (not found). When no site has the given id, or the site that \<^verbatim>\<open>find\<close> returns
  has no credential with the given id, \<^verbatim>\<open>checkInCredential\<close> returns false and the
  stored document is the one that was there: nothing is written.
\<close>

theorem checkIn_not_found:
  assumes "(\<forall>s \<in> set (sites st). id_site s \<noteq> siteId) \<or>
           (\<exists>site. find (\<lambda>s. id_site s = siteId) (sites st) = Some site \<and>
                   (\<forall>c \<in> set (credentials site). id_cred c \<noteq> credentialId))"
  shows "checkInCredential now t_today t_datenow dev siteId credentialId (Some st)
           = (False, Some st)"
  using assms
proof
  assume "\<forall>s \<in> set (sites st). id_site s \<noteq> siteId"
  then have "find (\<lambda>s. id_site s = siteId) (sites st) = None"
    by (simp add: find_None_iff)
  then show ?thesis by (simp add: checkInCredential_def)
next
  assume "\<exists>site. find (\<lambda>s. id_site s = siteId) (sites st) = Some site \<and>
                   (\<forall>c \<in> set (credentials site). id_cred c \<noteq> credentialId)"
  then obtain site where s: "find (\<lambda>s. id_site s = siteId) (sites st) = Some site"
    and c: "\<forall>c \<in> set (credentials site). id_cred c \<noteq> credentialId" by blast
  from c have "find (\<lambda>c. id_cred c = credentialId) (credentials site) = None"
    by (simp add: find_None_iff)
  with s show ?thesis by (simp add: checkInCredential_def)
qed

theorem checkIn_not_found_witness:
  "checkInCredential 1748858400000 1748858400000 1748858400000 ''dev'' ''s2'' ''c1''
     (Some streak_doc) = (False, Some streak_doc) \<and>
   checkInCredential 1748858400000 1748858400000 1748858400000 ''dev'' ''s1'' ''c2''
     (Some streak_doc) = (False, Some streak_doc)"
proof
  show "checkInCredential 1748858400000 1748858400000 1748858400000 ''dev'' ''s2'' ''c1''
     (Some streak_doc) = (False, Some streak_doc)"
    by (rule checkIn_not_found) (simp add: streak_doc_def sample_defs)
  show "checkInCredential 1748858400000 1748858400000 1748858400000 ''dev'' ''s1'' ''c2''
     (Some streak_doc) = (False, Some streak_doc)"
    by (rule checkIn_not_found) (simp add: streak_doc_def sample_defs)
qed

section \<open>Daily reset\<close>

text \<open>
  What \<^verbatim>\<open>checkDailyReset\<close> does: with \<^verbatim>\<open>autoReset\<close> set and \<^verbatim>\<open>lastReset\<close> different from
  the UTC date it reads, the stored document keeps every site and every credential, each
  credential with \<^verbatim>\<open>checkedInOn\<close> null, and \<^verbatim>\<open>lastReset\<close> becomes the UTC date read when
  the reset is written; otherwise the document is the one that was stored.
\<close>

lemma checkDailyReset_effect:
  "checkDailyReset t t_reset (Some st) =
     Some (if autoReset (settings st) \<and> lastReset st \<noteq> isoDate t
           then st\<lparr>sites := map (\<lambda>s. s\<lparr>credentials :=
                                  map (\<lambda>c. c\<lparr>checkedInOn := None\<rparr>) (credentials s)\<rparr>)
                              (sites st),
                   lastReset := isoDate t_reset\<rparr>
           else st)"
  by (simp add: checkDailyReset_def resetAllCredentials_def)

text \<open>
  Claim C5 (daily reset). The claim compares \<^verbatim>\<open>lastReset\<close> with today's date, which the
  specification and the repository's documentation take in the local time zone.
  \<^verbatim>\<open>checkDailyReset\<close> takes the UTC date of \<^verbatim>\<open>toISOString()\<close>. For the document last reset
  on 2025-01-01 with \<^verbatim>\<open>autoReset\<close> set: at 2025-01-01T20:30:00Z a clock at UTC+05:30
  shows 2025-01-02, the claim asks for a reset, and the document stays as it is with its
  credential still checked in; at 2025-01-02T02:00:00Z a clock at UTC-05:00 shows
  2025-01-01, the claim asks for no change, and the document is reset.
\<close>

theorem daily_reset_uses_utc_date:
  "localDate 330 1735763400000 = 20090 \<and>
   lastReset reset_doc = 20089 \<and>
   autoReset (settings reset_doc) \<and>
   checkDailyReset 1735763400000 1735763400000 (Some reset_doc) = Some reset_doc \<and>
   map_option checkedInOn
     (lookup_credential ''s1'' ''c1''
        (checkDailyReset 1735763400000 1735763400000 (Some reset_doc)))
     = Some (Some 1735722000000) \<and>
   localDate (- 300) 1735783200000 = 20089 \<and>
   map_option lastReset (checkDailyReset 1735783200000 1735783200000 (Some reset_doc))
     = Some 20090 \<and>
   map_option checkedInOn
     (lookup_credential ''s1'' ''c1''
        (checkDailyReset 1735783200000 1735783200000 (Some reset_doc)))
     = Some None"
  by (simp add: localDate_def checkDailyReset_def resetAllCredentials_def reset_doc_def
        sample_defs isoDate_def lookup_credential_def)

section \<open>The history of a credential\<close>

lemma find_update_first:
  "find P xs = Some x \<Longrightarrow> P (f x) \<Longrightarrow> find P (update_first P f xs) = Some (f x)"
  by (induction xs) (auto split: if_splits)

lemma find_holds: "find P xs = Some x \<Longrightarrow> P x"
  by (induction xs) (auto split: if_splits)

lemma sites_updateStreak [simp]: "sites (updateStreak t1 t2 st) = sites st"
  by (simp add: updateStreak_def Let_def split: option.splits)

lemma id_cred_addHistory [simp]: "id_cred (addHistory now dev c) = id_cred c"
  by (simp add: addHistory_def Let_def)

text \<open>After a check-in, \<^verbatim>\<open>find\<close> reaches the same credential, now updated.\<close>

lemma lookup_checkIn:
  assumes "lookup_credential sid cid store = Some c"
  shows "lookup_credential sid cid (snd (checkInCredential now t1 t2 dev sid cid store))
           = Some (addHistory now dev (c\<lparr>checkedInOn := Some now\<rparr>))"
proof -
  from assms obtain st s where st: "store = Some st"
    and s: "find (\<lambda>s. id_site s = sid) (sites st) = Some s"
    and c: "find (\<lambda>c. id_cred c = cid) (credentials s) = Some c"
    by (auto simp: lookup_credential_def split: option.splits)
  let ?c' = "addHistory now dev (c\<lparr>checkedInOn := Some now\<rparr>)"
  let ?f = "\<lambda>s. s\<lparr>credentials :=
                    update_first (\<lambda>c. id_cred c = cid) (\<lambda>_. ?c') (credentials s)\<rparr>"
  have cid: "id_cred c = cid" using find_holds [OF c] .
  have sid: "id_site s = sid" using find_holds [OF s] .
  have 1: "find (\<lambda>s. id_site s = sid) (update_first (\<lambda>s. id_site s = sid) ?f (sites st))
             = Some (?f s)"
    by (rule find_update_first [OF s]) (simp add: sid)
  have 2: "find (\<lambda>c. id_cred c = cid) (credentials (?f s)) = Some ?c'"
    using find_update_first [OF c, of "\<lambda>_. ?c'"] cid by simp
  show ?thesis
    using 1 2 by (simp add: st s c checkInCredential_def lookup_credential_def Let_def)
qed

lemma addHistory_history:
  "checkInHistory (addHistory now dev c)
     = Some (take CONFIG_limits_maxHistoryEntries
               (\<lparr>timestamp = now, device = dev\<rparr> # history_or_empty c))"
  by (simp add: addHistory_def history_or_empty_def Let_def CONFIG_features_checkInHistory_def)

lemma take_append_take: "take n (xs @ take n ys) = take n (xs @ ys)"
  by (simp add: min_def)

lemma checkIns_history:
  "lookup_credential sid cid store = Some c \<Longrightarrow> rs \<noteq> [] \<Longrightarrow>
   \<exists>c'. lookup_credential sid cid (checkIns rs sid cid store) = Some c' \<and>
        checkInHistory c' =
          Some (take CONFIG_limits_maxHistoryEntries
                  (rev (map entry_of rs) @ history_or_empty c))"
proof (induction rs arbitrary: store c)
  case Nil
  then show ?case by simp
next
  case (Cons r rs)
  obtain now t1 t2 dev where r: "r = (now, t1, t2, dev)" by (cases r) auto
  let ?store1 = "snd (checkInCredential now t1 t2 dev sid cid store)"
  let ?c1 = "addHistory now dev (c\<lparr>checkedInOn := Some now\<rparr>)"
  have l1: "lookup_credential sid cid ?store1 = Some ?c1"
    by (rule lookup_checkIn [OF Cons.prems(1)])
  have h1: "history_or_empty ?c1
              = take CONFIG_limits_maxHistoryEntries (entry_of r # history_or_empty c)"
    by (simp add: addHistory_history history_or_empty_def r entry_of_def)
  show ?case
  proof (cases "rs = []")
    case True
    with l1 h1 show ?thesis
      by (simp add: r addHistory_history entry_of_def history_or_empty_def)
  next
    case False
    from Cons.IH [OF l1 False] obtain c' where
      c': "lookup_credential sid cid (checkIns rs sid cid ?store1) = Some c'"
      and h: "checkInHistory c' = Some (take CONFIG_limits_maxHistoryEntries
                 (rev (map entry_of rs) @ history_or_empty ?c1))"
      by blast
    have "take CONFIG_limits_maxHistoryEntries (rev (map entry_of rs) @ history_or_empty ?c1)
        = take CONFIG_limits_maxHistoryEntries
            (rev (map entry_of (r # rs)) @ history_or_empty c)"
      unfolding h1 by (simp only: take_append_take) simp
    with c' h show ?thesis by (simp add: r)
  qed
qed

text \<open>
  Claim C6 (history cap). After one or more check-ins of a credential its history is the
  first 100 entries of the new entries, latest first, followed by the history it had: at
  most 100 entries, most recent first. After more than 100 check-ins it has exactly 100
  entries, the 100 most recent ones, latest first.
\<close>

theorem history_cap:
  assumes "lookup_credential siteId credentialId (Some st) = Some c" and "rs \<noteq> []"
  shows "\<exists>c' h. lookup_credential siteId credentialId
                  (checkIns rs siteId credentialId (Some st)) = Some c' \<and>
           checkInHistory c' = Some h \<and>
           CONFIG_limits_maxHistoryEntries = 100 \<and>
           length h \<le> 100 \<and>
           h = take 100 (rev (map entry_of rs) @ history_or_empty c) \<and>
           (length rs > 100 \<longrightarrow> length h = 100 \<and> h = take 100 (rev (map entry_of rs)))"
proof -
  from checkIns_history [OF assms] obtain c' where
    c': "lookup_credential siteId credentialId (checkIns rs siteId credentialId (Some st))
           = Some c'"
    and h: "checkInHistory c' = Some (take CONFIG_limits_maxHistoryEntries
               (rev (map entry_of rs) @ history_or_empty c))"
    by blast
  show ?thesis
    using c' h by (auto simp: CONFIG_limits_maxHistoryEntries_def)
qed

theorem history_cap_witness:
  "lookup_credential ''s1'' ''c1'' (Some streak_doc) = Some (sample_credential ''c1'' None) \<and>
   length many_reads = 150 \<and>
   (\<exists>c' h. lookup_credential ''s1'' ''c1'' (checkIns many_reads ''s1'' ''c1'' (Some streak_doc))
              = Some c' \<and>
       checkInHistory c' = Some h \<and> length h = 100 \<and>
       h = take 100 (rev (map entry_of many_reads)))"
proof -
  have l: "lookup_credential ''s1'' ''c1'' (Some streak_doc) = Some (sample_credential ''c1'' None)"
    by (simp add: lookup_credential_def streak_doc_def sample_defs)
  have n: "length many_reads = 150" by (simp add: many_reads_def)
  then have ne: "many_reads \<noteq> []" by auto
  from history_cap [OF l ne] n l show ?thesis by auto
qed

section \<open>Adding a site\<close>

text \<open>
  Claim C10 (\<^verbatim>\<open>addSite\<close> spreads the caller's object last). The stored site has the
  caller's \<^verbatim>\<open>id\<close>, \<^verbatim>\<open>createdAt\<close> and \<^verbatim>\<open>updatedAt\<close> whenever the caller's object has
  these keys, and the generated values otherwise; so a caller's id that equals the id of
  a stored site yields a document in which two sites share an id.
\<close>

theorem addSite_caller_fields_win:
  "\<exists>newSite st'.
      addSite gen_id t_created t_updated siteData (Some st) = (Some newSite, Some st') \<and>
      sites st' = sites st @ [newSite] \<and>
      id_site newSite = (case sd_id siteData of Some i \<Rightarrow> i | None \<Rightarrow> gen_id) \<and>
      createdAt newSite = (case sd_createdAt siteData of Some c \<Rightarrow> c | None \<Rightarrow> t_created) \<and>
      updatedAt newSite = (case sd_updatedAt siteData of Some u \<Rightarrow> u | None \<Rightarrow> t_updated) \<and>
      (\<forall>s \<in> set (sites st). sd_id siteData = Some (id_site s) \<longrightarrow>
           \<not> distinct (map id_site (sites st')))"
  by (auto simp: addSite_def Let_def)

theorem addSite_caller_fields_win_witness:
  "\<exists>newSite st'.
      addSite ''fresh-id'' 1748858400000 1748858400000
          ((sample_site_data (Some ''s1''))\<lparr>sd_createdAt := Some 5, sd_updatedAt := Some 7\<rparr>)
          (Some streak_doc) = (Some newSite, Some st') \<and>
      id_site newSite = ''s1'' \<and> createdAt newSite = 5 \<and> updatedAt newSite = 7 \<and>
      map id_site (sites st') = [''s1'', ''s1''] \<and>
      \<not> distinct (map id_site (sites st'))"
  using addSite_caller_fields_win [of "''fresh-id''" 1748858400000 1748858400000
          "(sample_site_data (Some ''s1''))\<lparr>sd_createdAt := Some 5, sd_updatedAt := Some 7\<rparr>"
          streak_doc]
  by (auto simp: sample_site_data_def streak_doc_def sample_defs)

section \<open>Filtering by status\<close>

text \<open>
  Claim C3 (\<^verbatim>\<open>getFilteredSites\<close>). The claim classifies a site as done exactly when
  every credential has been checked in today. \<^verbatim>\<open>getFilteredSites\<close> tests the credentials
  with \<^verbatim>\<open>some\<close>: a site with one credential checked in today and one not is not done in
  the words of the claim, yet the filter \<^verbatim>\<open>done\<close> keeps it and the filter \<^verbatim>\<open>pending\<close>
  drops it.
\<close>

theorem filter_done_with_one_credential_checked:
  "\<not> spec_site_done 1748858400000 partial_site \<and>
   getFilteredSites 1748858400000 (status_filter ''done'') [partial_site] = [partial_site] \<and>
   getFilteredSites 1748858400000 (status_filter ''pending'') [partial_site] = []"
  by (simp add: getFilteredSites_def status_filter_def spec_site_done_def hasCheckedIn_def
        partial_site_def sample_defs isToday_def isoDate_def)

section \<open>Encryption and export\<close>

lemma byte_char_roundtrip: "word_of_nat (unat b mod 256) = (b :: byte)"
proof -
  have "unat b < 256" using unsigned_less [of b] by simp
  then show ?thesis by simp
qed

lemma bytes_chars_roundtrip:
  "map (\<lambda>c. of_nat (of_char c)) (map (\<lambda>b. char_of (unat b)) (bs :: byte list)) = bs"
  by (induction bs) (simp_all add: byte_char_roundtrip)

lemma base64_roundtrip:
  "\<forall>s. atob P (btoa P s) = Some s \<Longrightarrow>
   base64ToArrayBuffer P (arrayBufferToBase64 P bs) = Some bs"
  by (simp add: base64ToArrayBuffer_def arrayBufferToBase64_def bytes_chars_roundtrip del: map_map)

text \<open>
  Claim C8 (encryption round trip). On a platform whose base64, AES-GCM and text coding
  invert each other, and for a payload that \<^verbatim>\<open>JSON.parse\<close> reads back from its
  \<^verbatim>\<open>JSON.stringify\<close>, decrypting the envelope that \<^verbatim>\<open>encrypt\<close> built from any salt and
  iv, with the same password, returns the payload.
\<close>

theorem encrypt_decrypt_roundtrip:
  assumes "\<forall>s. atob P (btoa P s) = Some s"
    and "\<forall>k i m. aes_gcm_decrypt P k i (aes_gcm_encrypt P k i m) = Some m"
    and "text_decode P (text_encode P (json_stringify P D)) = json_stringify P D"
    and "json_parse P (json_stringify P D) = Some D"
  shows "decrypt P (encrypt P salt iv D pw) pw = Inr D"
  using assms
  by (simp add: decrypt_def encrypt_def Let_def base64_roundtrip)

lemma chars_bytes_roundtrip:
  "map (\<lambda>b. char_of (unat (b::byte))) (map (\<lambda>c. of_nat (of_char c)) (s :: string)) = s"
  by (induction s) (simp_all add: unat_of_nat)

lemma toy_base64: "atob (toy_platform f g) (btoa (toy_platform f g) s) = Some s"
  by (simp add: toy_platform_def)

lemma toy_aes:
  "aes_gcm_decrypt (toy_platform f g) k i (aes_gcm_encrypt (toy_platform f g) k i m) = Some m"
  by (simp add: toy_platform_def)

lemma toy_text: "text_decode (toy_platform f g) (text_encode (toy_platform f g) s) = s"
  by (simp add: toy_platform_def chars_bytes_roundtrip del: map_map)

lemma toy_json: "json_parse (toy_platform f g) (json_stringify (toy_platform f g) d) = g (f d)"
  by (simp add: toy_platform_def)

theorem encrypt_decrypt_roundtrip_witness:
  "decrypt (toy_platform (\<lambda>s. s) Some)
     (encrypt (toy_platform (\<lambda>s. s) Some) [1, 2] [3] ''{a:1}'' ''pw'') ''pw'' = Inr ''{a:1}''"
proof (rule encrypt_decrypt_roundtrip)
  show "\<forall>s. atob (toy_platform (\<lambda>s. s) Some) (btoa (toy_platform (\<lambda>s. s) Some) s) = Some s"
    by (simp only: toy_base64) simp
  show "\<forall>k i m. aes_gcm_decrypt (toy_platform (\<lambda>s. s) Some) k i
                  (aes_gcm_encrypt (toy_platform (\<lambda>s. s) Some) k i m) = Some m"
    by (simp only: toy_aes) simp
  show "text_decode (toy_platform (\<lambda>s. s) Some)
          (text_encode (toy_platform (\<lambda>s. s) Some)
             (json_stringify (toy_platform (\<lambda>s. s) Some) ''{a:1}''))
        = json_stringify (toy_platform (\<lambda>s. s) Some) ''{a:1}''"
    by (rule toy_text)
  show "json_parse (toy_platform (\<lambda>s. s) Some)
          (json_stringify (toy_platform (\<lambda>s. s) Some) ''{a:1}'') = Some ''{a:1}''"
    by (simp only: toy_json)
qed

text \<open>
  Claim C7 (export encryption), as amended. With \<^verbatim>\<open>encrypt\<close> true and a non-empty
  password the export is the serialized envelope of the export object, whatever the
  format, \<^verbatim>\<open>csv\<close> included. With \<^verbatim>\<open>encrypt\<close> false, or with a null or empty password,
  the format \<^verbatim>\<open>csv\<close> gives the plain CSV text and the format \<^verbatim>\<open>json\<close> the plain
  serialized export object.
\<close>

theorem exportData_encryption:
  "(encrypt_flag \<and> pw = Some p \<and> p \<noteq> [] \<longrightarrow>
      exportData P salt iv t format includeHistory encrypt_flag pw (Some st)
        = Some (JSON_of_envelope (encrypt P salt iv (buildExportData t includeHistory st) p))) \<and>
   (\<not> encrypt_flag \<or> pw = None \<or> pw = Some [] \<longrightarrow>
      exportData P salt iv t ''csv'' includeHistory encrypt_flag pw (Some st)
        = Some (CSV_text (convertToCSV (buildExportData t includeHistory st))) \<and>
      exportData P salt iv t ''json'' includeHistory encrypt_flag pw (Some st)
        = Some (JSON_of_data (buildExportData t includeHistory st)))"
  by (auto simp: exportData_def Let_def)

theorem exportData_encryption_witness:
  "exportData export_platform [1, 2] [3] 1748858400000 ''csv'' True True (Some ''pw'')
       (Some streak_doc)
     = Some (JSON_of_envelope (encrypt export_platform [1, 2] [3]
               (buildExportData 1748858400000 True streak_doc) ''pw'')) \<and>
   exportData export_platform [1, 2] [3] 1748858400000 ''csv'' True False (Some ''pw'')
       (Some streak_doc)
     = Some (CSV_text (convertToCSV (buildExportData 1748858400000 True streak_doc))) \<and>
   exportData export_platform [1, 2] [3] 1748858400000 ''json'' True True None
       (Some streak_doc)
     = Some (JSON_of_data (buildExportData 1748858400000 True streak_doc))"
  using exportData_encryption [of True "Some ''pw''" "''pw''" export_platform "[1, 2]" "[3]"
          1748858400000 "''csv''" True streak_doc]
        exportData_encryption [of False "Some ''pw''" "''pw''" export_platform "[1, 2]" "[3]"
          1748858400000 "''csv''" True streak_doc]
        exportData_encryption [of True None "''pw''" export_platform "[1, 2]" "[3]"
          1748858400000 "''csv''" True streak_doc]
  by simp

text \<open>
  Claim C7 as stated fails twice: a CSV export asked for with \<^verbatim>\<open>encrypt\<close> and a password
  returns the serialized envelope and not the CSV text, and an export with \<^verbatim>\<open>encrypt\<close>
  true but no password is not passed through the envelope.
\<close>

theorem exportData_csv_encrypted_counterexample:
  "exportData export_platform [1, 2] [3] 1748858400000 ''csv'' True True (Some ''pw'') (Some streak_doc)
     \<noteq> Some (CSV_text (convertToCSV (buildExportData 1748858400000 True streak_doc))) \<and>
   exportData export_platform [1, 2] [3] 1748858400000 ''csv'' True True (Some ''pw'') (Some streak_doc)
     = Some (JSON_of_envelope (encrypt export_platform [1, 2] [3]
               (buildExportData 1748858400000 True streak_doc) ''pw'')) \<and>
   exportData export_platform [1, 2] [3] 1748858400000 ''json'' True True None (Some streak_doc)
     = Some (JSON_of_data (buildExportData 1748858400000 True streak_doc))"
  by (simp add: exportData_def Let_def)

section \<open>Migration\<close>

lemma split_on_not_Nil: "split_on d s \<noteq> []"
  by (induction s) (auto simp: Let_def)

lemma split_100 [simp]: "split_on CHR ''.'' ''1.0.0'' = [''1'', ''0'', ''0'']"
  by (simp add: Let_def)

lemma split_200 [simp]: "split_on CHR ''.'' ''2.0.0'' = [''2'', ''0'', ''0'']"
  by (simp add: Let_def)

lemma split_000 [simp]: "split_on CHR ''.'' ''0.0.0'' = [''0'', ''0'', ''0'']"
  by (simp add: Let_def)

lemma split_210 [simp]: "split_on CHR ''.'' ''2.1.0'' = [''2'', ''1'', ''0'']"
  by (simp add: Let_def)

lemma map_of_set_prop [simp]: "map_of (set_prop k v kvs) k = Some v"
  by (induction kvs) auto

lemma compare_parts_refl [simp]: "compare_parts ps ps = 0"
  by (induction ps) (auto simp: Let_def)

lemma compare_2_1:
  "host_ok num \<Longrightarrow> compareVersions num (JStr ''2.0.0'') (JStr ''1.0.0'') = Inr 1"
  by (auto simp: host_ok_def compareVersions_def Let_def)

lemma compare_2_2: "compareVersions num (JStr ''2.0.0'') (JStr ''2.0.0'') = Inr 0"
  by (simp add: compareVersions_def)

lemma compare_0_1:
  "host_ok num \<Longrightarrow> compareVersions num (JStr ''0.0.0'') (JStr ''1.0.0'') = Inr (- 1)"
  by (auto simp: host_ok_def compareVersions_def Let_def)

lemma compare_21_1:
  "host_ok num \<Longrightarrow> compareVersions num (JStr ''2.1.0'') (JStr ''1.0.0'') = Inr 1"
  by (auto simp: host_ok_def compareVersions_def Let_def)

lemma compare_21_2:
  "host_ok num \<Longrightarrow> compareVersions num (JStr ''2.1.0'') (JStr ''2.0.0'') = Inr 1"
  by (auto simp: host_ok_def compareVersions_def Let_def)

lemma compare_below_1_below_2:
  assumes "host_ok num" and "compareVersions num dv (JStr ''1.0.0'') = Inr c" and "c < 0"
  shows "compareVersions num dv (JStr ''2.0.0'') = Inr (- 1)"
proof -
  from assms(2) obtain s where dv: "dv = JStr s"
    by (cases dv) (auto simp: compareVersions_def)
  obtain p ps where ps: "map num (split_on CHR ''.'' s) = p # ps"
    using split_on_not_Nil [of "CHR ''.''" s] by (cases "split_on CHR ''.'' s") auto
  from assms(2,3) have "\<not> part_or_zero (num ''1'') < part_or_zero p"
    by (auto simp: dv compareVersions_def ps Let_def split: if_splits)
  with assms(1) have "part_or_zero p < part_or_zero (num ''2'')"
    by (auto simp: host_ok_def)
  then show ?thesis
    by (simp add: dv compareVersions_def ps Let_def)
qed

lemma migrate_current:
  assumes "host_ok (Number H)" and "map_of kvs ''version'' = Some (JStr ''2.0.0'')"
  shows "migrate H (JObj kvs) = Inr (JObj kvs)"
  using assms
  by (simp add: migrate_def migrations_def or_else_def compare_2_1 compare_2_2 Let_def)

lemma migrate_cases:
  assumes ok: "host_ok (Number H)" and m: "migrate H D = Inr D'"
  shows "D' = JNull \<or> (\<exists>kvs. D' = JObj kvs \<and> map_of kvs ''version'' = Some (JStr ''2.0.0''))
         \<or> (D' = D \<and> (\<exists>kvs. D = JObj kvs) \<and>
             (\<forall>t. migrate (H\<lparr>today_string := t\<rparr>) D = Inr D))"
proof (cases "truthy D")
  case False
  with m show ?thesis by (simp add: migrate_def)
next
  case True
  let ?dv = "or_else (get_prop D ''version'') (JStr ''0.0.0'')"
  from m True obtain c1 where c1: "compareVersions (Number H) ?dv (JStr ''1.0.0'') = Inr c1"
    by (cases "compareVersions (Number H) ?dv (JStr ''1.0.0'')")
       (auto simp: migrate_def migrations_def Let_def)
  then obtain s where s: "?dv = JStr s"
    by (cases ?dv) (auto simp: compareVersions_def)
  then obtain c2 where c2: "compareVersions (Number H) ?dv (JStr ''2.0.0'') = Inr c2"
    by (simp add: compareVersions_def)
  show ?thesis
  proof (cases "c2 < 0")
    case True
    with m \<open>truthy D\<close> c1 c2 show ?thesis
      by (auto simp: migrate_def migrations_def Let_def split: sum.splits if_splits)
  next
    case False
    with compare_below_1_below_2 [OF ok c1] c2 have n1: "\<not> c1 < 0" by auto
    from m \<open>truthy D\<close> c1 c2 n1 False have D': "D' = JObj (spread D)"
      by (simp add: migrate_def migrations_def Let_def)
    have "\<exists>kvs. D = JObj kvs"
    proof (cases D)
      case (JObj kvs)
      then show ?thesis by simp
    qed (use \<open>truthy D\<close> c1 n1 compare_0_1 [OF ok] in \<open>auto simp: or_else_def\<close>)
    then obtain kvs where D: "D = JObj kvs" by blast
    have "\<forall>t. migrate (H\<lparr>today_string := t\<rparr>) D = Inr D"
      using c1 c2 n1 False by (simp add: D migrate_def migrations_def Let_def)
    with D D' show ?thesis by simp
  qed
qed

text \<open>
  Claim C4 (migration idempotence). On a host whose \<^verbatim>\<open>Number\<close> reads the numerals 0, 1
  and 2 as zero and two larger numbers in increasing order, migrating the result of a
  migration gives that result again, for every input value, and a call that throws is the
  same failure in both; a document whose version is the configured current version is
  returned unchanged.
\<close>

theorem migrate_idempotent:
  assumes "part_or_zero (Number H ''0'') = 0"
    and "0 < part_or_zero (Number H ''1'')"
    and "part_or_zero (Number H ''1'') < part_or_zero (Number H ''2'')"
  shows "migrate_twice H t D = migrate H D \<and>
         (map_of kvs ''version'' = Some (JStr CONFIG_app_version) \<longrightarrow>
            migrate H (JObj kvs) = Inr (JObj kvs))"
proof
  have ok: "host_ok (Number H)" using assms by (simp add: host_ok_def)
  show "migrate_twice H t D = migrate H D"
  proof (cases "migrate H D")
    case (Inl e)
    then show ?thesis by (simp add: migrate_twice_def)
  next
    case (Inr D')
    have ok': "host_ok (Number (H\<lparr>today_string := t\<rparr>))" using ok by simp
    from migrate_cases [OF ok Inr]
    have "migrate (H\<lparr>today_string := t\<rparr>) D' = Inr D'"
    proof (elim disjE exE conjE)
      assume "D' = JNull"
      then show ?thesis by (simp add: migrate_def)
    next
      fix kvs assume "D' = JObj kvs" "map_of kvs ''version'' = Some (JStr ''2.0.0'')"
      then show ?thesis using migrate_current [OF ok'] by simp
    next
      assume "D' = D" "\<forall>t. migrate (H\<lparr>today_string := t\<rparr>) D = Inr D"
      then show ?thesis by simp
    qed
    with Inr show ?thesis by (simp add: migrate_twice_def)
  qed
  show "map_of kvs ''version'' = Some (JStr CONFIG_app_version) \<longrightarrow>
            migrate H (JObj kvs) = Inr (JObj kvs)"
    using ok
    by (simp add: migrate_def migrations_def or_else_def compare_21_1 compare_21_2 Let_def
          CONFIG_app_version_def)
qed


theorem migrate_idempotent_witness:
  "part_or_zero (Number sample_host ''0'') = 0 \<and>
   0 < part_or_zero (Number sample_host ''1'') \<and>
   part_or_zero (Number sample_host ''1'') < part_or_zero (Number sample_host ''2'') \<and>
   (case migrate sample_host legacy_doc of
      Inl e \<Rightarrow> False
    | Inr d \<Rightarrow> get_prop d ''version'' = JStr ''2.0.0'') \<and>
   migrate_twice sample_host ''2025-06-03'' legacy_doc = migrate sample_host legacy_doc \<and>
   migrate sample_host current_doc = Inr current_doc"
proof -
  have h: "part_or_zero (Number sample_host ''0'') = 0"
    "0 < part_or_zero (Number sample_host ''1'')"
    "part_or_zero (Number sample_host ''1'') < part_or_zero (Number sample_host ''2'')"
    by (simp_all add: sample_host_def part_or_zero_def)
  have e: "(case migrate sample_host legacy_doc of
              Inl e \<Rightarrow> False
            | Inr d \<Rightarrow> get_prop d ''version'' = JStr ''2.0.0'')"
    by code_simp
  from migrate_idempotent [OF h, of "''2025-06-03''" legacy_doc "[(''version'', JStr ''2.1.0''), (''sites'', JArr [])]"]
  show ?thesis using h e by (simp add: current_doc_def CONFIG_app_version_def)
qed

end
